theory Spec2Isabelle
  imports Complex_Main "HOL-Library.Multiset" "HOL-Library.Stream"
begin

section \<open>Data model (types.ts)\<close>

text \<open>
  JavaScript numbers are modelled by exact numbers: money, essence, corruption and upgrade
  magnitudes as \<open>rat\<close> (the code multiplies by 0.5, 1.5, 1.2, 0.9 and adds 0.25, 0.1),
  card values, scores and the house level as \<open>int\<close>. The rounding of IEEE doubles is
  not part of the model; on whole-number costs the floors of the price computation are the
  same in both. Display-only fields (\<open>description\<close>, \<open>rarity\<close>) are left out of the
  records.
\<close>

datatype Suit = hearts | diamonds | clubs | spades

datatype Rank = R2 | R3 | R4 | R5 | R6 | R7 | R8 | R9 | R10 | RJ | RQ | RK | RA

datatype EffectType =
  bonus_credits | bonus_essence | shield | critical | reduce_corruption
  | on_bust_essence | on_21_credits | risk_corruption

record CardUpgrade =
  upgrade_id :: string
  upgrade_name :: string
  upgrade_cost :: rat
  effectType :: EffectType
  upgrade_value :: rat

record MetaUpgrade =
  meta_id :: string
  meta_name :: string
  meta_cost :: int

record GlobalState =
  fragments :: int
  unlockedHacks :: "string list"
  totalRuns :: nat

datatype ConsumableType = reveal_dealer | reduce_threat | guarantee_10

record Consumable =
  consumable_id :: string
  consumable_name :: string
  consumable_cost :: rat
  consumable_type :: ConsumableType

datatype PassiveType = boon | curse

record Passive =
  passive_id :: string
  passive_name :: string
  passive_type :: PassiveType
  passive_cost :: "rat option"

record PlayingCard =
  card_id :: string
  suit :: Suit
  rank :: Rank
  card_value :: int
  upgrades :: "CardUpgrade list"

datatype GamePhase =
  betting | playing | dealer_turn | round_over | forge | game_over | upgrade_selection

record GameState =
  credits :: rat
  essence :: rat
  playerDeck :: "PlayingCard list"
  drawPile :: "PlayingCard list"
  discardPile :: "PlayingCard list"
  inventory :: "Consumable list"
  activePassives :: "Passive list"
  unlockedUpgrades :: "string list"
  offeredUpgradeIds :: "string list"
  playerHand :: "PlayingCard list"
  dealerHand :: "PlayingCard list"
  currentBet :: rat
  dealerCardRevealed :: bool
  houseLevel :: int
  corruptionTokens :: rat
  corruptionThreshold :: rat
  phase :: GamePhase
  message :: string

section \<open>The random source\<close>

text \<open>
  \<open>Math.random()\<close> returns a number \<open>r\<close> with \<open>0 \<le> r < 1\<close>. One result is a value
  of type \<open>rand\<close>; the source of randomness is the stream of the successive results, and
  every function that calls \<open>Math.random()\<close> takes the stream and returns what is left
  of it.
\<close>

typedef rand = "{r::rat. 0 \<le> r \<and> r < 1}"
  by (rule exI[of _ 0]) simp

setup_lifting type_definition_rand

type_synonym random = "rand stream"

lift_definition rand_zero :: rand is "0"
  by simp

lift_definition rand_half :: rand is "1 / 2"
  by simp

lift_definition rand_high :: rand is "99 / 100"
  by simp

definition randomIndex :: "rand \<Rightarrow> nat \<Rightarrow> nat" where
  \<comment> \<open>\<open>Math.floor(Math.random() * n)\<close>\<close>
  "randomIndex r n = nat \<lfloor>Rep_rand r * of_nat n\<rfloor>"

section \<open>Card and deck model (utils/gameLogic.ts)\<close>

definition suits :: "Suit list" where
  "suits = [hearts, diamonds, clubs, spades]"

definition ranks :: "Rank list" where
  "ranks = [R2, R3, R4, R5, R6, R7, R8, R9, R10, RJ, RQ, RK, RA]"

fun suitName :: "Suit \<Rightarrow> string" where
  "suitName hearts = ''hearts''"
| "suitName diamonds = ''diamonds''"
| "suitName clubs = ''clubs''"
| "suitName spades = ''spades''"

fun rankName :: "Rank \<Rightarrow> string" where
  "rankName R2 = ''2''"
| "rankName R3 = ''3''"
| "rankName R4 = ''4''"
| "rankName R5 = ''5''"
| "rankName R6 = ''6''"
| "rankName R7 = ''7''"
| "rankName R8 = ''8''"
| "rankName R9 = ''9''"
| "rankName R10 = ''10''"
| "rankName RJ = ''J''"
| "rankName RQ = ''Q''"
| "rankName RK = ''K''"
| "rankName RA = ''A''"

fun rankValue :: "Rank \<Rightarrow> int" where
  \<comment> \<open>\<open>parseInt(rank)\<close>, then 10 for J, Q, K and 11 for A\<close>
  "rankValue R2 = 2"
| "rankValue R3 = 3"
| "rankValue R4 = 4"
| "rankValue R5 = 5"
| "rankValue R6 = 6"
| "rankValue R7 = 7"
| "rankValue R8 = 8"
| "rankValue R9 = 9"
| "rankValue R10 = 10"
| "rankValue RJ = 10"
| "rankValue RQ = 10"
| "rankValue RK = 10"
| "rankValue RA = 11"

definition makeCard :: "Suit \<Rightarrow> Rank \<Rightarrow> string \<Rightarrow> PlayingCard" where
  \<comment> \<open>the object \<open>createDeck\<close> pushes; \<open>tag\<close> is the random suffix of the id\<close>
  "makeCard s r tag =
     \<lparr>card_id = rankName r @ ''-'' @ suitName s @ ''-'' @ tag,
      suit = s, rank = r, card_value = rankValue r, upgrades = []\<rparr>"

definition createDeck :: "(rand \<Rightarrow> string) \<Rightarrow> random \<Rightarrow> PlayingCard list \<times> random" where
  \<comment> \<open>\<open>idSuffix\<close> stands for \<open>r.toString(36).substr(2, 9)\<close>, the printing of a float\<close>
  "createDeck idSuffix rnd =
     (map (\<lambda>((s, r), x). makeCard s r (idSuffix x))
        (zip (List.product suits ranks) (stake 52 rnd)),
      sdrop 52 rnd)"

fun shuffleLoop :: "nat \<Rightarrow> 'a list \<Rightarrow> random \<Rightarrow> 'a list \<times> random" where
  \<comment> \<open>\<open>for (let i = ...; i > 0; i--)\<close>: one swap of positions \<open>i\<close> and \<open>j\<close> per round\<close>
  "shuffleLoop 0 newDeck rnd = (newDeck, rnd)"
| "shuffleLoop (Suc i) newDeck rnd =
     (let j = randomIndex (shd rnd) (Suc i + 1)
      in shuffleLoop i (newDeck[Suc i := newDeck ! j, j := newDeck ! Suc i]) (stl rnd))"

definition shuffleDeck :: "'a list \<Rightarrow> random \<Rightarrow> 'a list \<times> random" where
  "shuffleDeck deck rnd = shuffleLoop (length deck - 1) deck rnd"

fun findIndex :: "('a \<Rightarrow> bool) \<Rightarrow> 'a list \<Rightarrow> nat option" where
  "findIndex P [] = None"
| "findIndex P (x # xs) =
     (if P x then Some 0 else map_option Suc (findIndex P xs))"

definition moveToEnd :: "nat \<Rightarrow> 'a list \<Rightarrow> 'a list" where
  \<comment> \<open>\<open>const c = deck.splice(i, 1)[0]; deck.push(c)\<close> for an index inside the list\<close>
  "moveToEnd i deck = take i deck @ drop (Suc i) deck @ [deck ! i]"

definition moveHighValueCardToTop :: "PlayingCard list \<Rightarrow> PlayingCard list" where
  "moveHighValueCardToTop deck =
     (case findIndex (\<lambda>c. card_value c = 10) deck of
        None \<Rightarrow> deck
      | Some highValueIndex \<Rightarrow> moveToEnd highValueIndex deck)"

fun reduceAces :: "int \<Rightarrow> nat \<Rightarrow> int" where
  \<comment> \<open>\<open>while (score > 21 && aces > 0) { score -= 10; aces -= 1; }\<close>\<close>
  "reduceAces score 0 = score"
| "reduceAces score (Suc aces) =
     (if score > 21 then reduceAces (score - 10) aces else score)"

definition calculateHandScore :: "PlayingCard list \<Rightarrow> int" where
  "calculateHandScore hand =
     reduceAces (sum_list (map card_value hand)) (length (filter (\<lambda>c. rank c = RA) hand))"

subsection \<open>Standard blackjack scoring, for comparison\<close>

definition hardTotal :: "PlayingCard list \<Rightarrow> int" where
  \<comment> \<open>every ace counted as 1\<close>
  "hardTotal hand = sum_list (map (\<lambda>c. if rank c = RA then 1 else card_value c) hand)"

definition standardScore :: "PlayingCard list \<Rightarrow> int" where
  \<comment> \<open>one ace counts 11 when that does not go over 21\<close>
  "standardScore hand =
     (if list_ex (\<lambda>c. rank c = RA) hand \<and> hardTotal hand + 10 \<le> 21
      then hardTotal hand + 10 else hardTotal hand)"

definition deckCard :: "PlayingCard \<Rightarrow> bool" where
  \<comment> \<open>a card as \<open>createDeck\<close> makes it: the value is the value of the rank\<close>
  "deckCard c \<longleftrightarrow> card_value c = rankValue (rank c)"

section \<open>Effect catalog (constants.ts)\<close>

definition INITIAL_CREDITS :: rat where
  "INITIAL_CREDITS = 100"

definition INITIAL_ESSENCE :: rat where
  "INITIAL_ESSENCE = 0"

definition CORRUPTION_THRESHOLD_BASE :: rat where
  "CORRUPTION_THRESHOLD_BASE = 8"

definition STARTING_UPGRADE_IDS :: "string list" where
  "STARTING_UPGRADE_IDS = [''midas_touch'', ''soul_siphon'', ''firewall_shard'']"

definition upgradeEntry :: "string \<Rightarrow> string \<Rightarrow> rat \<Rightarrow> EffectType \<Rightarrow> rat \<Rightarrow> CardUpgrade" where
  "upgradeEntry i n c t v =
     \<lparr>upgrade_id = i, upgrade_name = n, upgrade_cost = c, effectType = t, upgrade_value = v\<rparr>"

definition UPGRADES :: "CardUpgrade list" where
  "UPGRADES =
     [upgradeEntry ''midas_touch'' ''Midas Touch'' 50 bonus_credits 5,
      upgradeEntry ''soul_siphon'' ''Soul Siphon'' 30 bonus_essence 2,
      upgradeEntry ''firewall_shard'' ''Firewall Shard'' 75 shield (1 / 2),
      upgradeEntry ''lucky_charm'' ''Lucky Charm'' 100 critical (1 / 4),
      upgradeEntry ''credit_cache'' ''Credit Cache'' 120 bonus_credits 15,
      upgradeEntry ''essence_well'' ''Essence Well'' 80 bonus_essence 4,
      upgradeEntry ''high_roller'' ''High Roller'' 200 critical (1 / 2),
      upgradeEntry ''emergency_breaker'' ''Emergency Breaker'' 150 shield (9 / 10),
      upgradeEntry ''cooling_fan'' ''Cooling Fan'' 100 reduce_corruption 1,
      upgradeEntry ''recycler'' ''Recycler'' 60 on_bust_essence 5,
      upgradeEntry ''jackpot_protocol'' ''Jackpot Protocol'' 110 on_21_credits 50,
      upgradeEntry ''hybrid_chip'' ''Hybrid Chip'' 60 bonus_credits 3,
      upgradeEntry ''risk_processor'' ''Risk Processor'' 80 risk_corruption 15,
      upgradeEntry ''essence_converter'' ''Essence Converter'' 70 bonus_essence 3,
      upgradeEntry ''parity_bit'' ''Parity Bit'' 90 bonus_credits 10]"

definition consumableEntry :: "string \<Rightarrow> string \<Rightarrow> rat \<Rightarrow> ConsumableType \<Rightarrow> Consumable" where
  "consumableEntry i n c t =
     \<lparr>consumable_id = i, consumable_name = n, consumable_cost = c, consumable_type = t\<rparr>"

definition CONSUMABLES :: "Consumable list" where
  "CONSUMABLES =
     [consumableEntry ''data_spike'' ''Data Spike'' 15 reveal_dealer,
      consumableEntry ''coolant'' ''System Coolant'' 25 reduce_threat,
      consumableEntry ''override_chip'' ''Override Chip'' 40 guarantee_10]"

definition passiveEntry :: "string \<Rightarrow> string \<Rightarrow> PassiveType \<Rightarrow> rat option \<Rightarrow> Passive" where
  "passiveEntry i n t c =
     \<lparr>passive_id = i, passive_name = n, passive_type = t, passive_cost = c\<rparr>"

definition PASSIVES :: "Passive list" where
  "PASSIVES =
     [passiveEntry ''auto_miner'' ''Auto-Miner'' boon (Some 100),
      passiveEntry ''vip_protocol'' ''VIP Protocol'' boon (Some 150),
      passiveEntry ''backup_battery'' ''Backup Battery'' boon (Some 80),
      passiveEntry ''memory_leak'' ''Memory Leak'' curse None,
      passiveEntry ''encryption_error'' ''Encryption Error'' curse None,
      passiveEntry ''power_surge'' ''Power Surge'' curse None]"

section \<open>Gameplay helpers (App.tsx)\<close>

text \<open>
  The component keeps the run (\<open>state\<close>), the persistent \<open>globalState\<close>, the bet
  selector \<open>betAmount\<close> and \<open>selectedCardId\<close>. A handler reads the \<open>state\<close> of the
  render it was created in, and changes the run through \<open>setState\<close>: an updater
  \<open>prev => ...\<close> is applied to the run as it is when the update is processed, and several
  updaters queued by one handler are applied in order, each to the result of the one
  before. A handler run from a button acts on the current run, so that \<open>prev\<close> is
  \<open>state\<close>; a call through \<open>setTimeout\<close> keeps the \<open>state\<close> of the render that scheduled
  it, and its updater meets a later \<open>prev\<close>. The handlers return at once when there
  is no run (\<open>if (!state) return\<close>); the model starts from a run.
\<close>

definition hasHack :: "GlobalState \<Rightarrow> string \<Rightarrow> bool" where
  "hasHack globalState i \<longleftrightarrow> i \<in> set (unlockedHacks globalState)"

definition hasPassive :: "GameState \<Rightarrow> string \<Rightarrow> bool" where
  "hasPassive state i \<longleftrightarrow> list_ex (\<lambda>p. passive_id p = i) (activePassives state)"

record DrawResult =
  draw_card :: "PlayingCard option"
  newDraw :: "PlayingCard list"
  newDiscard :: "PlayingCard list"

definition popCard :: "PlayingCard list \<Rightarrow> PlayingCard list \<Rightarrow> DrawResult" where
  \<comment> \<open>\<open>newDraw.pop()\<close>: the last element, \<open>undefined\<close> on the empty array\<close>
  "popCard pile discard =
     \<lparr>draw_card = (if pile = [] then None else Some (last pile)),
      newDraw = butlast pile, newDiscard = discard\<rparr>"

definition drawCard ::
  "PlayingCard list \<Rightarrow> PlayingCard list \<Rightarrow> random \<Rightarrow> DrawResult \<times> random" where
  "drawCard currentDrawPile currentDiscardPile rnd =
     (if currentDrawPile = []
      then (let (shuffled, rnd') = shuffleDeck currentDiscardPile rnd
            in (popCard shuffled [], rnd'))
      else (popCard currentDrawPile currentDiscardPile, rnd))"

record Effects =
  essenceDelta :: rat
  creditDelta :: rat
  corruptionDelta :: rat

definition upgradeEffect :: "CardUpgrade \<Rightarrow> Effects \<Rightarrow> Effects" where
  \<comment> \<open>the body of \<open>card.upgrades.forEach\<close>: six independent tests, in order\<close>
  "upgradeEffect upg e =
     (let e1 = (if effectType upg = bonus_essence
                then e\<lparr>essenceDelta := essenceDelta e + upgrade_value upg\<rparr> else e);
          e2 = (if effectType upg = bonus_credits
                then e1\<lparr>creditDelta := creditDelta e1 + upgrade_value upg\<rparr> else e1);
          e3 = (if effectType upg = reduce_corruption
                then e2\<lparr>corruptionDelta := corruptionDelta e2 - upgrade_value upg\<rparr> else e2);
          e4 = (if effectType upg = risk_corruption
                then e3\<lparr>creditDelta := creditDelta e3 + upgrade_value upg,
                        corruptionDelta := corruptionDelta e3 + 1\<rparr> else e3);
          e5 = (if upgrade_id upg = ''hybrid_chip''
                then e4\<lparr>essenceDelta := essenceDelta e4 + 1\<rparr> else e4)
      in (if upgrade_id upg = ''essence_converter''
          then e5\<lparr>creditDelta := creditDelta e5 - 5\<rparr> else e5))"

definition processCardEffects :: "GameState \<Rightarrow> PlayingCard \<Rightarrow> Effects" where
  "processCardEffects state c =
     fold upgradeEffect (upgrades c)
       \<lparr>essenceDelta = (if houseLevel state = 3 then 0 else 1),
        creditDelta = 0, corruptionDelta = 0\<rparr>"

definition dealtEffects :: "GameState \<Rightarrow> PlayingCard option \<Rightarrow> Effects" where
  \<comment> \<open>\<open>if (p.card) { ... processCardEffects(p.card, ...) ... }\<close>: nothing for no card\<close>
  "dealtEffects state c =
     (case c of
        None \<Rightarrow> \<lparr>essenceDelta = 0, creditDelta = 0, corruptionDelta = 0\<rparr>
      | Some x \<Rightarrow> processCardEffects state x)"

definition pushDrawn :: "PlayingCard list \<Rightarrow> PlayingCard option \<Rightarrow> PlayingCard list" where
  \<comment> \<open>\<open>if (p.card) { playerHand.push(p.card); ... }\<close>\<close>
  "pushDrawn hand c = (case c of None \<Rightarrow> hand | Some x \<Rightarrow> hand @ [x])"

definition isBossLevel :: "GameState \<Rightarrow> bool" where
  "isBossLevel state \<longleftrightarrow> houseLevel state > 0 \<and> houseLevel state mod 5 = 0"

definition freshShuffledDeck :: "(rand \<Rightarrow> string) \<Rightarrow> random \<Rightarrow> PlayingCard list \<times> random" where
  \<comment> \<open>\<open>shuffleDeck(createDeck())\<close>\<close>
  "freshShuffledDeck idSuffix rnd =
     (let (deck, rnd') = createDeck idSuffix rnd in shuffleDeck deck rnd')"

section \<open>Actions (App.tsx)\<close>

definition placeBet :: "GameState \<Rightarrow> rat \<Rightarrow> (rand \<Rightarrow> string) \<Rightarrow> random \<Rightarrow> GameState" where
  "placeBet state betAmount idSuffix rnd =
     (if credits state < betAmount then state\<lparr>message := ''Not enough credits.''\<rparr>
      else
        (let extraEssence = (if hasPassive state ''auto_miner'' then 1 else 0);
             backupEssence =
               (if essence state = 0 \<and> hasPassive state ''backup_battery'' then 5 else 0);
             (p1, rnd1) = drawCard (drawPile state) (discardPile state) rnd;
             eff1 = dealtEffects state (draw_card p1);
             isBoss = isBossLevel state;
             (shuffled, rnd2) = freshShuffledDeck idSuffix rnd1;
             dealerDeck =
               (if isBoss
                then (case findIndex (\<lambda>c. rank c = RK) shuffled of
                        None \<Rightarrow> shuffled
                      | Some kingIdx \<Rightarrow> moveToEnd kingIdx shuffled)
                else shuffled);
             (p2, rnd3) = drawCard (newDraw p1) (newDiscard p1) rnd2;
             eff2 = dealtEffects state (draw_card p2);
             newPlayerHand = pushDrawn (pushDrawn [] (draw_card p1)) (draw_card p2);
             newDealerHand = [last dealerDeck, last (butlast dealerDeck)];
             totalEssenceGain =
               extraEssence + backupEssence + essenceDelta eff1 + essenceDelta eff2;
             totalCreditGain = creditDelta eff1 + creditDelta eff2;
             totalCorruptionDelta = corruptionDelta eff1 + corruptionDelta eff2;
             pScore = calculateHandScore newPlayerHand
         in state
              \<lparr>credits := credits state - betAmount + totalCreditGain,
               essence := essence state + totalEssenceGain,
               corruptionTokens := max 0 (corruptionTokens state + totalCorruptionDelta),
               currentBet := betAmount,
               dealerCardRevealed := False,
               playerHand := newPlayerHand,
               dealerHand := newDealerHand,
               drawPile := newDraw p2,
               discardPile := newDiscard p2,
               phase := (if pScore = 21 then dealer_turn else playing),
               message := (if isBoss then ''BOSS PROTOCOL ACTIVE: THE ARCHITECT''
                           else ''Hit or Stand?'')\<rparr>))"

definition removeAt :: "nat \<Rightarrow> 'a list \<Rightarrow> 'a list" where
  \<comment> \<open>\<open>xs.splice(index, 1)\<close>\<close>
  "removeAt i xs = take i xs @ drop (Suc i) xs"

definition useConsumable :: "GameState \<Rightarrow> nat \<Rightarrow> GameState" where
  "useConsumable state index =
     (if index \<ge> length (inventory state) then state
      else
        (let item = inventory state ! index;
             newState =
               (if consumable_type item = reveal_dealer
                then state\<lparr>dealerCardRevealed := True\<rparr>
                else if consumable_type item = reduce_threat
                then state\<lparr>corruptionTokens := max 0 (corruptionTokens state - 2)\<rparr>
                else state\<lparr>drawPile := moveHighValueCardToTop (drawPile state)\<rparr>);
             msg =
               (if consumable_type item = reveal_dealer
                then ''Used '' @ consumable_name item @ ''.''
                else if consumable_type item = reduce_threat then ''Threat level reduced.''
                else ''Next card override active.'')
         in newState\<lparr>inventory := removeAt index (inventory state), message := msg\<rparr>))"

datatype Scheduled =
  ScheduledResolve GameState "PlayingCard list" "PlayingCard list" rat bool
  | ScheduledStand

text \<open>
  \<open>ScheduledResolve state pHand dHand bet busted\<close> is the pending
  \<open>setTimeout(() => resolveRound(pHand, dHand, bet, busted))\<close> of the render whose run
  was \<open>state\<close>; \<open>ScheduledStand\<close> is \<open>setTimeout(() => stand())\<close>.
\<close>

definition hit :: "GameState \<Rightarrow> random \<Rightarrow> GameState \<times> Scheduled option" where
  "hit state rnd =
     (let (draw, rnd') = drawCard (drawPile state) (discardPile state) rnd
      in case draw_card draw of
           None \<Rightarrow> (state, None)
         | Some newCard \<Rightarrow>
             (let newHand = playerHand state @ [newCard];
                  effects = processCardEffects state newCard;
                  hitCost = (if hasPassive state ''memory_leak'' then 1 else 0);
                  score = calculateHandScore newHand
              in (state
                    \<lparr>playerHand := newHand,
                     drawPile := newDraw draw,
                     discardPile := newDiscard draw,
                     essence := essence state + essenceDelta effects,
                     credits := credits state + creditDelta effects - hitCost,
                     corruptionTokens :=
                       max 0 (corruptionTokens state + corruptionDelta effects),
                     phase := (if score > 21 then round_over else phase state),
                     message := (if score > 21 then ''Bust!'' else message state)\<rparr>,
                  if score > 21
                  then Some (ScheduledResolve state newHand (dealerHand state)
                               (currentBet state) True)
                  else if score = 21 then Some ScheduledStand else None)))"

definition stand :: "GameState \<Rightarrow> GameState" where
  "stand prev = prev\<lparr>phase := dealer_turn, message := ''Dealer's turn...''\<rparr>"

definition doubleBet :: "GameState \<Rightarrow> GameState" where
  \<comment> \<open>the first updater of the Double Down handler\<close>
  "doubleBet prev =
     prev\<lparr>credits := credits prev - currentBet prev, currentBet := currentBet prev * 2\<rparr>"

definition doubleDraw ::
  "DrawResult \<Rightarrow> PlayingCard list \<Rightarrow> Effects \<Rightarrow> rat \<Rightarrow> GamePhase \<Rightarrow> string \<Rightarrow>
   GameState \<Rightarrow> GameState" where
  \<comment> \<open>the second updater of the Double Down handler, the same in both branches\<close>
  "doubleDraw draw newHand effects hitCost nextPhase msg prev =
     prev
       \<lparr>playerHand := newHand,
        drawPile := newDraw draw,
        discardPile := newDiscard draw,
        essence := essence prev + essenceDelta effects + 5,
        credits := credits prev - currentBet prev + creditDelta effects - hitCost,
        corruptionTokens := max 0 (corruptionTokens prev + corruptionDelta effects),
        currentBet := currentBet prev * 2,
        phase := nextPhase,
        message := msg\<rparr>"

definition doubleDown :: "GameState \<Rightarrow> random \<Rightarrow> GameState \<times> Scheduled option" where
  \<comment> \<open>the handler also doubles the bet selector: \<open>setBetAmount(b => b * 2)\<close>\<close>
  "doubleDown state rnd =
     (let (draw, rnd') = drawCard (drawPile state) (discardPile state) rnd
      in case draw_card draw of
           None \<Rightarrow> (doubleBet state, None)
         | Some newCard \<Rightarrow>
             (let newHand = playerHand state @ [newCard];
                  effects = processCardEffects state newCard;
                  hitCost = (if hasPassive state ''memory_leak'' then 1 else 0);
                  score = calculateHandScore newHand
              in if score > 21
                 then (doubleDraw draw newHand effects hitCost round_over ''Bust on Double!''
                         (doubleBet state),
                       Some (ScheduledResolve state newHand (dealerHand state)
                               (currentBet state * 2) True))
                 else (doubleDraw draw newHand effects hitCost dealer_turn ''Double Down!''
                         (doubleBet state),
                       None)))"

subsection \<open>Round resolution\<close>

definition handUpgrades :: "PlayingCard list \<Rightarrow> CardUpgrade list" where
  \<comment> \<open>the upgrades in the order \<open>pHand.forEach(c => c.upgrades?.forEach(u => ...))\<close>
      visits them\<close>
  "handUpgrades pHand = concat (map upgrades pHand)"

definition hookEssence :: "PlayingCard list \<Rightarrow> bool \<Rightarrow> rat" where
  \<comment> \<open>\<open>extraEssence\<close>\<close>
  "hookEssence pHand busted =
     sum_list (map (\<lambda>u. if busted \<and> effectType u = on_bust_essence
                         then upgrade_value u else 0) (handUpgrades pHand))"

definition hookCredits :: "PlayingCard list \<Rightarrow> int \<Rightarrow> rat" where
  \<comment> \<open>\<open>extraCredits\<close>\<close>
  "hookCredits pHand pScore =
     sum_list (map (\<lambda>u. if pScore = 21 \<and> effectType u = on_21_credits
                         then upgrade_value u else 0) (handUpgrades pHand))"

fun shieldTrials :: "CardUpgrade list \<Rightarrow> bool \<Rightarrow> random \<Rightarrow> bool \<times> random" where
  \<comment> \<open>\<open>if (u.effectType === 'shield' && Math.random() < u.value) shieldTriggered = true\<close>
      for every upgrade: a random number is drawn for each shield, and only then\<close>
  "shieldTrials [] shieldTriggered rnd = (shieldTriggered, rnd)"
| "shieldTrials (u # us) shieldTriggered rnd =
     (if effectType u = shield
      then shieldTrials us
             (if Rep_rand (shd rnd) < upgrade_value u then True else shieldTriggered)
             (stl rnd)
      else shieldTrials us shieldTriggered rnd)"

record Outcome =
  win :: bool
  payout :: rat
  essenceBonus :: rat
  msg :: string

definition adjudicate ::
  "GameState \<Rightarrow> PlayingCard list \<Rightarrow> PlayingCard list \<Rightarrow> rat \<Rightarrow> bool \<Rightarrow> random \<Rightarrow>
   Outcome \<times> random" where
  \<comment> \<open>the chain \<open>if (busted) ... else if (dScore > 21) ... else ...\<close> of \<open>resolveRound\<close>\<close>
  "adjudicate state pHand dHand bet busted rnd =
     (let pScore = calculateHandScore pHand;
          dScore = calculateHandScore dHand;
          pBlackjack = (length pHand = 2 \<and> pScore = 21);
          dBlackjack = (length dHand = 2 \<and> dScore = 21);
          isBoss = isBossLevel state
      in if busted
         then (let (shieldTriggered, rnd') = shieldTrials (handUpgrades pHand) False rnd
               in (if shieldTriggered
                   then \<lparr>win = False, payout = bet * (1 / 2), essenceBonus = 0,
                         msg = ''FAILURE MITIGATED [SHIELD].''\<rparr>
                   else \<lparr>win = False, payout = 0, essenceBonus = 0,
                         msg = ''Busted! House wins.''\<rparr>,
                   rnd'))
         else (if dScore > 21
               then \<lparr>win = True, payout = bet * 2, essenceBonus = 0,
                     msg = ''Dealer busts! You win!''\<rparr>
               else if pBlackjack
               then (if dBlackjack
                     then \<lparr>win = False, payout = bet, essenceBonus = 0, msg = ''Push.''\<rparr>
                     else \<lparr>win = True, payout = bet + bet * (3 / 2), essenceBonus = 25,
                           msg = ''Blackjack! (3:2 Payout)''\<rparr>)
               else if dBlackjack
               then \<lparr>win = False, payout = 0, essenceBonus = 0,
                     msg = ''Dealer has Blackjack. House wins.''\<rparr>
               else if pScore > dScore
               then \<lparr>win = True, payout = bet * 2, essenceBonus = 10, msg = ''You win!''\<rparr>
               else if pScore = dScore
               then (if houseLevel state \<ge> 7 \<or> isBoss
                     then \<lparr>win = False, payout = 0, essenceBonus = 0,
                           msg = (if isBoss then ''Boss wins Ties.''
                                  else ''Tie! House wins due to corruption.'')\<rparr>
                     else if houseLevel state \<le> 2
                     then \<lparr>win = True, payout = bet * 2, essenceBonus = 0,
                           msg = ''Tie! System yields to user.''\<rparr>
                     else \<lparr>win = False, payout = bet, essenceBonus = 0, msg = ''Push.''\<rparr>)
               else \<lparr>win = False, payout = 0, essenceBonus = 0, msg = ''House wins.''\<rparr>,
               rnd))"

definition winMultiplier :: "GameState \<Rightarrow> PlayingCard list \<Rightarrow> rat" where
  \<comment> \<open>\<open>multi\<close>: 1, plus the value of every critical upgrade of the hand, plus 0.1 with
      the VIP passive\<close>
  "winMultiplier state pHand =
     1 + sum_list (map (\<lambda>u. if effectType u = critical then upgrade_value u else 0)
                     (handUpgrades pHand))
       + (if hasPassive state ''vip_protocol'' then 1 / 10 else 0)"

definition applyMultiplier :: "GameState \<Rightarrow> PlayingCard list \<Rightarrow> rat \<Rightarrow> Outcome \<Rightarrow> Outcome" where
  \<comment> \<open>\<open>if (win) { ...; const profit = payout - bet; payout = bet + (profit * multi); }\<close>\<close>
  "applyMultiplier state pHand bet out =
     (if win out
      then out\<lparr>payout := bet + (payout out - bet) * winMultiplier state pHand\<rparr>
      else out)"

definition settle ::
  "GameState \<Rightarrow> PlayingCard list \<Rightarrow> PlayingCard list \<Rightarrow> rat \<Rightarrow> bool \<Rightarrow> random \<Rightarrow>
   Outcome \<times> random" where
  \<comment> \<open>\<open>win\<close>, \<open>payout\<close>, \<open>essenceBonus\<close> and \<open>msg\<close> as they stand after the multiplier\<close>
  "settle state pHand dHand bet busted rnd =
     (let (out, rnd') = adjudicate state pHand dHand bet busted rnd
      in (applyMultiplier state pHand bet out, rnd'))"

type_synonym sorter = "CardUpgrade list \<Rightarrow> random \<Rightarrow> CardUpgrade list \<times> random"

text \<open>
  A \<open>sorter\<close> stands for \<open>[...locked].sort(() => 0.5 - Math.random())\<close>: the order that
  sorting with a random comparator gives, and the random numbers it draws, are the
  JavaScript engine's.
\<close>

record Progress =
  newCorruption :: rat
  newHouseLevel :: int
  newThreshold :: rat
  newPassives :: "Passive list"
  nextPhase :: GamePhase
  newOfferedUpgrades :: "string list"
  progressMsg :: string

definition levelUp :: "GameState \<Rightarrow> string \<Rightarrow> sorter \<Rightarrow> random \<Rightarrow> Progress" where
  \<comment> \<open>the body of \<open>if (newCorruption >= newThreshold)\<close>\<close>
  "levelUp state msg0 sortRandom rnd =
     (let level = houseLevel state + 1;
          msg1 = msg0 @ '' The House grows stronger!'';
          locked = filter (\<lambda>u. upgrade_id u \<notin> set (unlockedUpgrades state)) UPGRADES;
          (shuffled, rnd1) =
            (if locked \<noteq> [] then sortRandom locked rnd else ([], rnd));
          curses =
            filter (\<lambda>p. passive_type p = curse
                        \<and> \<not> list_ex (\<lambda>ap. passive_id ap = passive_id p) (activePassives state))
              PASSIVES;
          glitch = (level > 5 \<and> level mod 2 = 0 \<and> curses \<noteq> []);
          randomCurse = curses ! randomIndex (shd rnd1) (length curses)
      in \<lparr>newCorruption = 0,
          newHouseLevel = level,
          newThreshold = corruptionThreshold state + 2,
          newPassives =
            (if glitch then activePassives state @ [randomCurse] else activePassives state),
          nextPhase = (if locked \<noteq> [] then upgrade_selection else round_over),
          newOfferedUpgrades = map upgrade_id (take 3 shuffled),
          progressMsg =
            (if glitch
             then msg1 @ '' SYSTEM GLITCH: '' @ passive_name randomCurse @ '' DETECTED.''
             else msg1)\<rparr>)"

definition progression ::
  "GameState \<Rightarrow> bool \<Rightarrow> string \<Rightarrow> sorter \<Rightarrow> random \<Rightarrow> Progress" where
  \<comment> \<open>the locals \<open>newCorruption\<close> ... \<open>newOfferedUpgrades\<close> and \<open>if (win) { ... }\<close>\<close>
  "progression state won msg0 sortRandom rnd =
     (if won \<and> corruptionTokens state + 1 \<ge> corruptionThreshold state
      then levelUp state msg0 sortRandom rnd
      else \<lparr>newCorruption = (if won then corruptionTokens state + 1
                              else corruptionTokens state),
            newHouseLevel = houseLevel state,
            newThreshold = corruptionThreshold state,
            newPassives = activePassives state,
            nextPhase = round_over,
            newOfferedUpgrades = [],
            progressMsg = msg0\<rparr>)"

definition fragmentsEarned :: "GameState \<Rightarrow> int" where
  "fragmentsEarned prev = \<lfloor>of_int (houseLevel prev * 5) + essence prev / 10\<rfloor>"

definition resolveRound ::
  "GameState \<Rightarrow> PlayingCard list \<Rightarrow> PlayingCard list \<Rightarrow> rat \<Rightarrow> bool \<Rightarrow> sorter \<Rightarrow> random \<Rightarrow>
   GameState \<Rightarrow> GameState" where
  \<comment> \<open>\<open>state\<close> is the run of the render that made the call, \<open>prev\<close> the run the updater
      is applied to\<close>
  "resolveRound state pHand dHand bet busted sortRandom rnd prev =
     (let pScore = calculateHandScore pHand;
          extraEssence = hookEssence pHand busted;
          extraCredits = hookCredits pHand pScore;
          (out, rnd') = settle state pHand dHand bet busted rnd;
          pr = progression state (win out) (msg out) sortRandom rnd';
          finalCredits = credits prev + payout out + extraCredits
      in prev
           \<lparr>credits := finalCredits,
            essence := essence prev + essenceBonus out + extraEssence,
            phase := (if finalCredits < 10 then game_over else nextPhase pr),
            message := (if finalCredits < 10 then ''SYSTEM FAILURE: INSUFFICIENT FUNDS''
                        else progressMsg pr),
            corruptionTokens := newCorruption pr,
            houseLevel := newHouseLevel pr,
            corruptionThreshold := newThreshold pr,
            activePassives := newPassives pr,
            discardPile := discardPile prev @ pHand @ dHand,
            offeredUpgradeIds := newOfferedUpgrades pr\<rparr>)"

definition resolveRoundGlobal ::
  "GameState \<Rightarrow> PlayingCard list \<Rightarrow> PlayingCard list \<Rightarrow> rat \<Rightarrow> bool \<Rightarrow> random \<Rightarrow>
   GameState \<Rightarrow> GlobalState \<Rightarrow> GlobalState" where
  \<comment> \<open>the \<open>setGlobalState\<close> inside the updater of \<open>resolveRound\<close>\<close>
  "resolveRoundGlobal state pHand dHand bet busted rnd prev gs =
     (let (out, rnd') = settle state pHand dHand bet busted rnd;
          finalCredits =
            credits prev + payout out + hookCredits pHand (calculateHandScore pHand)
      in if finalCredits < 10
         then gs\<lparr>fragments := fragments gs + fragmentsEarned prev\<rparr>
         else gs)"

definition fire :: "Scheduled \<Rightarrow> sorter \<Rightarrow> random \<Rightarrow> GameState \<Rightarrow> GameState" where
  \<comment> \<open>a pending timer runs on the run as it is by then\<close>
  "fire t sortRandom rnd prev =
     (case t of
        ScheduledResolve state pHand dHand bet busted \<Rightarrow>
          resolveRound state pHand dHand bet busted sortRandom rnd prev
      | ScheduledStand \<Rightarrow> stand prev)"

definition dealerTurn ::
  "GameState \<Rightarrow> (rand \<Rightarrow> string) \<Rightarrow> sorter \<Rightarrow> random \<Rightarrow> GameState" where
  \<comment> \<open>one run of the dealer effect's timer, from the run \<open>state\<close> that is current then\<close>
  "dealerTurn state idSuffix sortRandom rnd =
     (if phase state \<noteq> dealer_turn then state
      else
        (let dScore = calculateHandScore (dealerHand state);
             standThreshold = (if houseLevel state \<le> 3 then 16 else 17)
         in if dScore < standThreshold
            then (let (dealerDeck, rnd') = freshShuffledDeck idSuffix rnd
                  in state\<lparr>dealerHand := dealerHand state @ [hd dealerDeck]\<rparr>)
            else resolveRound state (playerHand state) (dealerHand state) (currentBet state)
                   False sortRandom rnd state))"

definition selectNewUpgrade :: "GameState \<Rightarrow> string \<Rightarrow> GameState" where
  "selectNewUpgrade prev upgradeId =
     prev\<lparr>unlockedUpgrades := unlockedUpgrades prev @ [upgradeId],
          phase := round_over,
          message := ''New Upgrade compiled into Supply.'',
          offeredUpgradeIds := []\<rparr>"

definition nextHand :: "GameState \<Rightarrow> GameState" where
  \<comment> \<open>the Next Hand button of the \<open>round_over\<close> phase\<close>
  "nextHand s =
     s\<lparr>phase := betting, playerHand := [], dealerHand := [],
       message := ''Place your bet to begin.''\<rparr>"

definition goToForge :: "GameState \<Rightarrow> GameState" where
  "goToForge prev = prev\<lparr>phase := forge, message := ''Entering the Forge...''\<rparr>"

definition leaveForge :: "GameState \<Rightarrow> GameState" where
  "leaveForge prev =
     prev\<lparr>phase := betting, message := ''Place your bet to begin.'',
          playerHand := [], dealerHand := []\<rparr>"

subsection \<open>Economy and forge\<close>

definition upgradePrice :: "GameState \<Rightarrow> GlobalState \<Rightarrow> CardUpgrade \<Rightarrow> rat" where
  \<comment> \<open>\<open>cost\<close> in \<open>buyUpgrade\<close>\<close>
  "upgradePrice state globalState upgrade =
     (let cost = upgrade_cost upgrade;
          cost1 = (if houseLevel state \<ge> 4 then of_int \<lfloor>cost * (3 / 2)\<rfloor> else cost);
          cost2 = (if hasPassive state ''encryption_error''
                   then of_int \<lfloor>cost1 * (12 / 10)\<rfloor> else cost1)
      in if hasHack globalState ''priority_access''
         then of_int \<lfloor>cost2 * (9 / 10)\<rfloor> else cost2)"

definition shopPrice :: "GameState \<Rightarrow> GlobalState \<Rightarrow> rat \<Rightarrow> rat" where
  \<comment> \<open>\<open>cost\<close> in \<open>buyConsumable\<close> and in \<open>buyPassive\<close>, from the catalog cost\<close>
  "shopPrice state globalState cost =
     (let cost1 = (if hasPassive state ''encryption_error''
                   then of_int \<lfloor>cost * (12 / 10)\<rfloor> else cost)
      in if hasHack globalState ''priority_access''
         then of_int \<lfloor>cost1 * (9 / 10)\<rfloor> else cost1)"

definition addUpgrade :: "string \<Rightarrow> CardUpgrade \<Rightarrow> PlayingCard \<Rightarrow> PlayingCard" where
  \<comment> \<open>\<open>c => c.id === selectedCardId ? { ...c, upgrades: [...c.upgrades, upgrade] } : c\<close>\<close>
  "addUpgrade selectedCardId upgrade c =
     (if card_id c = selectedCardId then c\<lparr>upgrades := upgrades c @ [upgrade]\<rparr> else c)"

definition buyUpgrade ::
  "GameState \<Rightarrow> GlobalState \<Rightarrow> string option \<Rightarrow> CardUpgrade \<Rightarrow> GameState" where
  \<comment> \<open>\<open>!selectedCardId\<close> holds for \<open>null\<close> and for the empty string\<close>
  "buyUpgrade state globalState selected upgrade =
     (case selected of
        None \<Rightarrow> state
      | Some selectedCardId \<Rightarrow>
          (let cost = upgradePrice state globalState upgrade
           in if selectedCardId = [] \<or> essence state < cost then state
              else state
                     \<lparr>essence := essence state - cost,
                      playerDeck := map (addUpgrade selectedCardId upgrade) (playerDeck state),
                      drawPile := map (addUpgrade selectedCardId upgrade) (drawPile state),
                      discardPile :=
                        map (addUpgrade selectedCardId upgrade) (discardPile state),
                      playerHand :=
                        map (addUpgrade selectedCardId upgrade) (playerHand state)\<rparr>))"

definition buyConsumable :: "GameState \<Rightarrow> GlobalState \<Rightarrow> Consumable \<Rightarrow> GameState" where
  "buyConsumable state globalState item =
     (let cost = shopPrice state globalState (consumable_cost item)
      in if length (inventory state) \<ge> 3 then state\<lparr>message := ''Inventory full.''\<rparr>
         else if essence state < cost then state\<lparr>message := ''Not enough Essence.''\<rparr>
         else state
                \<lparr>essence := essence state - cost,
                 inventory := inventory state @ [item],
                 message := ''Acquired '' @ consumable_name item @ ''.''\<rparr>)"

definition buyPassive :: "GameState \<Rightarrow> GlobalState \<Rightarrow> Passive \<Rightarrow> GameState" where
  \<comment> \<open>\<open>!passive.cost\<close> holds for no cost and for the cost 0\<close>
  "buyPassive state globalState passive =
     (case passive_cost passive of
        None \<Rightarrow> state
      | Some c \<Rightarrow>
          if c = 0 then state
          else
            (let cost = shopPrice state globalState c
             in if essence state < cost then state\<lparr>message := ''Not enough Essence.''\<rparr>
                else if hasPassive state (passive_id passive) then state
                else state
                       \<lparr>essence := essence state - cost,
                        activePassives := activePassives state @ [passive],
                        message :=
                          ''System Module Installed: '' @ passive_name passive\<rparr>))"

function showNat :: "nat \<Rightarrow> string" where
  \<comment> \<open>a whole number inside a template string, in decimal\<close>
  "showNat n =
     (if n < 10 then [char_of (48 + n)]
      else showNat (n div 10) @ [char_of (48 + n mod 10)])"
  by pat_completeness auto
termination
  by (relation "measure id") auto

declare showNat.simps [simp del]

definition purgeCost :: "GameState \<Rightarrow> nat" where
  \<comment> \<open>\<open>75 + (Math.max(0, 52 - state.playerDeck.length) * 10)\<close>\<close>
  "purgeCost state = 75 + nat (max 0 (52 - int (length (playerDeck state)))) * 10"

definition purgeCard :: "GameState \<Rightarrow> string option \<Rightarrow> GameState" where
  \<comment> \<open>the handler also clears the selection: \<open>setSelectedCardId(null)\<close>\<close>
  "purgeCard state selected =
     (case selected of
        None \<Rightarrow> state
      | Some selectedCardId \<Rightarrow>
          (let cost = purgeCost state
           in if selectedCardId = [] then state
              else if length (playerDeck state) \<le> 5
              then state\<lparr>message := ''Deck too small to purge.''\<rparr>
              else if essence state < of_nat cost
              then state\<lparr>message := ''Need '' @ showNat cost @ '' Essence to purge.''\<rparr>
              else state
                     \<lparr>essence := essence state - of_nat cost,
                      playerDeck :=
                        filter (\<lambda>c. card_id c \<noteq> selectedCardId) (playerDeck state),
                      drawPile := filter (\<lambda>c. card_id c \<noteq> selectedCardId) (drawPile state),
                      discardPile :=
                        filter (\<lambda>c. card_id c \<noteq> selectedCardId) (discardPile state),
                      message := ''Card removed from database.''\<rparr>))"

subsection \<open>Starting a run\<close>

definition buyMetaUpgrade :: "GlobalState \<Rightarrow> MetaUpgrade \<Rightarrow> GlobalState" where
  "buyMetaUpgrade globalState upgrade =
     (if fragments globalState \<ge> meta_cost upgrade \<and> \<not> hasHack globalState (meta_id upgrade)
      then globalState
             \<lparr>fragments := fragments globalState - meta_cost upgrade,
              unlockedHacks := unlockedHacks globalState @ [meta_id upgrade]\<rparr>
      else globalState)"

definition startRunGlobal :: "GlobalState \<Rightarrow> GlobalState" where
  \<comment> \<open>the \<open>setGlobalState\<close> of \<open>startRun\<close>\<close>
  "startRunGlobal prev = prev\<lparr>totalRuns := totalRuns prev + 1\<rparr>"

definition startRun :: "GlobalState \<Rightarrow> (rand \<Rightarrow> string) \<Rightarrow> random \<Rightarrow> GameState" where
  "startRun globalState idSuffix rnd =
     (let startCredits =
            INITIAL_CREDITS + (if hasHack globalState ''cache_injection'' then 25 else 0);
          startEssence =
            INITIAL_ESSENCE + (if hasHack globalState ''essence_leak'' then 10 else 0);
          startThreshold =
            CORRUPTION_THRESHOLD_BASE
              + (if hasHack globalState ''threat_dampener'' then 2 else 0);
          startInventory =
            (if hasHack globalState ''firewall_bypass''
             then (case find (\<lambda>c. consumable_id c = ''data_spike'') CONSUMABLES of
                     None \<Rightarrow> []
                   | Some spike \<Rightarrow> [spike])
             else []);
          (freshDeck, rnd1) = freshShuffledDeck idSuffix rnd;
          (pile, rnd2) = shuffleDeck freshDeck rnd1
      in \<lparr>credits = startCredits,
          essence = startEssence,
          playerDeck = freshDeck,
          drawPile = pile,
          discardPile = [],
          inventory = startInventory,
          activePassives = [],
          unlockedUpgrades = STARTING_UPGRADE_IDS,
          offeredUpgradeIds = [],
          playerHand = [],
          dealerHand = [],
          currentBet = 0,
          dealerCardRevealed = False,
          houseLevel = 1,
          corruptionTokens = 0,
          corruptionThreshold = startThreshold,
          phase = betting,
          message = ''System initialized. Place your bet.''\<rparr>)"

section \<open>Pricing as the specification words it\<close>

definition flooredTimes :: "rat \<Rightarrow> rat \<Rightarrow> rat" where
  "flooredTimes cost factor = of_int \<lfloor>cost * factor\<rfloor>"

definition specPrice :: "bool \<Rightarrow> int \<Rightarrow> bool \<Rightarrow> bool \<Rightarrow> rat \<Rightarrow> rat" where
  \<comment> \<open>base cost, then x1.5 at house level 4 and above (card upgrades only), then x1.2
      under the encryption-error curse, then x0.9 with the priority-access hack, each
      product floored\<close>
  "specPrice isUpgrade level cursed hacked base =
     (let a = (if isUpgrade \<and> level \<ge> 4 then flooredTimes base (3 / 2) else base);
          b = (if cursed then flooredTimes a (12 / 10) else a)
      in if hacked then flooredTimes b (9 / 10) else b)"

section \<open>The deck invariant\<close>

definition cardIds :: "PlayingCard list \<Rightarrow> string multiset" where
  "cardIds cs = mset (map card_id cs)"

definition deckInvariant :: "GameState \<Rightarrow> bool" where
  \<comment> \<open>the master deck holds every card once, and its cards are those of the draw pile, the
      discard pile and the player hand together, each once, by id\<close>
  "deckInvariant s \<longleftrightarrow>
     distinct (map card_id (playerDeck s))
     \<and> cardIds (playerDeck s)
         = cardIds (drawPile s) + cardIds (discardPile s) + cardIds (playerHand s)"

section \<open>Sample runs\<close>

definition keepOrder :: sorter where
  "keepOrder xs rnd = (xs, rnd)"

definition zeros :: random where
  "zeros = sconst rand_zero"

definition dealerTag :: "rand \<Rightarrow> string" where
  "dealerTag r = ''d''"

definition sampleRun :: GameState where
  \<comment> \<open>a run at house level 1 in the playing phase: 10 bet out of 100 credits, a hand of
      19 against a dealer hand of 19, four cards left to draw, the 2 of clubs next\<close>
  "sampleRun =
     \<lparr>credits = 90, essence = 0,
      playerDeck =
        [makeCard spades R10 ''p'', makeCard hearts R9 ''p'', makeCard clubs R5 ''p'',
         makeCard diamonds RK ''p'', makeCard diamonds R3 ''p'', makeCard clubs R2 ''p''],
      drawPile =
        [makeCard clubs R5 ''p'', makeCard diamonds RK ''p'', makeCard diamonds R3 ''p'',
         makeCard clubs R2 ''p''],
      discardPile = [],
      inventory = [consumableEntry ''coolant'' ''System Coolant'' 25 reduce_threat],
      activePassives = [],
      unlockedUpgrades = STARTING_UPGRADE_IDS,
      offeredUpgradeIds = [],
      playerHand = [makeCard spades R10 ''p'', makeCard hearts R9 ''p''],
      dealerHand = [makeCard hearts R10 ''d'', makeCard clubs R9 ''d''],
      currentBet = 10, dealerCardRevealed = False,
      houseLevel = 1, corruptionTokens = 1, corruptionThreshold = 8,
      phase = playing, message = ''Hit or Stand?''\<rparr>"

definition bettingRun :: GameState where
  \<comment> \<open>the same run before the deal: all six cards in the draw pile, 100 credits\<close>
  "bettingRun =
     sampleRun
       \<lparr>credits := 100, drawPile := playerDeck sampleRun, playerHand := [], dealerHand := [],
        currentBet := 0, phase := betting, message := ''Place your bet to begin.''\<rparr>"

definition coolingFan :: CardUpgrade where
  "coolingFan = upgradeEntry ''cooling_fan'' ''Cooling Fan'' 100 reduce_corruption 1"

definition coolRun :: GameState where
  \<comment> \<open>the sample run with two Cooling Fans on the 2 of clubs, the next card to draw\<close>
  "coolRun =
     sampleRun
       \<lparr>playerDeck :=
          map (addUpgrade ''2-clubs-p'' coolingFan)
            (map (addUpgrade ''2-clubs-p'' coolingFan) (playerDeck sampleRun)),
        drawPile :=
          map (addUpgrade ''2-clubs-p'' coolingFan)
            (map (addUpgrade ''2-clubs-p'' coolingFan) (drawPile sampleRun))\<rparr>"

definition cursedRun :: GameState where
  \<comment> \<open>the sample run in the forge, with 600 essence and the Encryption Error curse\<close>
  "cursedRun =
     sampleRun
       \<lparr>essence := 600, phase := forge,
        activePassives := [passiveEntry ''encryption_error'' ''Encryption Error'' curse None]\<rparr>"

definition noHacks :: GlobalState where
  "noHacks = \<lparr>fragments = 0, unlockedHacks = [], totalRuns = 1\<rparr>"

definition priorityAccess :: GlobalState where
  "priorityAccess = \<lparr>fragments = 0, unlockedHacks = [''priority_access''], totalRuns = 1\<rparr>"

definition highs :: random where
  "highs = sconst rand_high"

definition luckyCharm :: CardUpgrade where
  "luckyCharm = upgradeEntry ''lucky_charm'' ''Lucky Charm'' 100 critical (1 / 4)"

definition firewallShard :: CardUpgrade where
  "firewallShard = upgradeEntry ''firewall_shard'' ''Firewall Shard'' 75 shield (1 / 2)"

definition sureShield :: CardUpgrade where
  \<comment> \<open>a shield of value 1.0; the catalog's shields have 0.5 and 0.9\<close>
  "sureShield = upgradeEntry ''sure_shield'' ''Sure Shield'' 0 shield 1"

definition critRun :: GameState where
  \<comment> \<open>the sample run on the dealer's turn, with a Lucky Charm on the 10 of spades\<close>
  "critRun =
     sampleRun
       \<lparr>playerDeck := map (addUpgrade ''10-spades-p'' luckyCharm) (playerDeck sampleRun),
        playerHand := map (addUpgrade ''10-spades-p'' luckyCharm) (playerHand sampleRun),
        phase := dealer_turn\<rparr>"

definition bustHand :: "CardUpgrade \<Rightarrow> PlayingCard list" where
  \<comment> \<open>10, 9 and king: 29, with one shield on the 10\<close>
  "bustHand u =
     [\<lparr>card_id = ''10-spades-p'', suit = spades, rank = R10, card_value = 10,
       upgrades = [u]\<rparr>,
      makeCard hearts R9 ''p'', makeCard diamonds RK ''p'']"

definition shardTen :: PlayingCard where
  \<comment> \<open>the 10 of spades with a Firewall Shard\<close>
  "shardTen =
     \<lparr>card_id = ''10-spades-p'', suit = spades, rank = R10, card_value = 10,
      upgrades = [firewallShard]\<rparr>"

definition fanKing :: PlayingCard where
  \<comment> \<open>the king of diamonds with a Cooling Fan and a Firewall Shard\<close>
  "fanKing =
     \<lparr>card_id = ''K-diamonds-p'', suit = diamonds, rank = RK, card_value = 10,
      upgrades = [coolingFan, firewallShard]\<rparr>"

definition fanBustRun :: GameState where
  \<comment> \<open>the sample run with these two cards, the king next to draw: a hit busts on 29\<close>
  "fanBustRun =
     sampleRun
       \<lparr>playerDeck :=
          [shardTen, makeCard hearts R9 ''p'', makeCard clubs R5 ''p'', fanKing,
           makeCard diamonds R3 ''p'', makeCard clubs R2 ''p''],
        drawPile :=
          [makeCard clubs R5 ''p'', makeCard diamonds R3 ''p'', makeCard clubs R2 ''p'',
           fanKing],
        playerHand := [shardTen, makeCard hearts R9 ''p'']\<rparr>"

definition fanBustHand :: "PlayingCard list" where
  "fanBustHand = [shardTen, makeCard hearts R9 ''p'', fanKing]"

definition mixedRolls :: random where
  \<comment> \<open>0.99 first, then zeros\<close>
  "mixedRolls = rand_high ## zeros"

section \<open>Shield trials and sequences of rounds\<close>

definition shieldsOf :: "PlayingCard list \<Rightarrow> CardUpgrade list" where
  \<comment> \<open>the shield upgrades of the hand, card by card, in order\<close>
  "shieldsOf pHand =
     concat (map (\<lambda>c. filter (\<lambda>u. effectType u = shield) (upgrades c)) pHand)"

definition trialSucceeds :: "PlayingCard list \<Rightarrow> random \<Rightarrow> nat \<Rightarrow> bool" where
  \<comment> \<open>the trial of shield number \<open>i\<close>, on random number \<open>i\<close>, at the shield's value\<close>
  "trialSucceeds pHand rnd i \<longleftrightarrow> Rep_rand (rnd !! i) < upgrade_value (shieldsOf pHand ! i)"

record Round =
  round_pHand :: "PlayingCard list"
  round_dHand :: "PlayingCard list"
  round_bet :: rat
  round_busted :: bool
  round_sorter :: sorter
  round_random :: random

definition playRound :: "Round \<Rightarrow> GameState \<Rightarrow> GameState" where
  \<comment> \<open>a resolution called from the current run\<close>
  "playRound r s =
     resolveRound s (round_pHand r) (round_dHand r) (round_bet r) (round_busted r)
       (round_sorter r) (round_random r) s"

definition roundWon :: "Round \<Rightarrow> GameState \<Rightarrow> bool" where
  "roundWon r s \<longleftrightarrow>
     win (fst (settle s (round_pHand r) (round_dHand r) (round_bet r) (round_busted r)
                 (round_random r)))"

fun playRounds :: "Round list \<Rightarrow> GameState \<Rightarrow> GameState" where
  "playRounds [] s = s"
| "playRounds (r # rs) s = playRounds rs (playRound r s)"

fun allWon :: "Round list \<Rightarrow> GameState \<Rightarrow> bool" where
  "allWon [] s = True"
| "allWon (r # rs) s = (roundWon r s \<and> allWon rs (playRound r s))"

definition winningRound :: Round where
  \<comment> \<open>19 against 17 with a bet of 10\<close>
  "winningRound =
     \<lparr>round_pHand = [makeCard spades R10 ''p'', makeCard hearts R9 ''p''],
      round_dHand = [makeCard hearts R10 ''d'', makeCard clubs R7 ''d''],
      round_bet = 10, round_busted = False, round_sorter = keepOrder,
      round_random = zeros\<rparr>"

definition freshRun :: GameState where
  \<comment> \<open>house level 1, threshold 8, no tokens\<close>
  "freshRun = bettingRun\<lparr>corruptionTokens := 0\<rparr>"

section \<open>Scoring\<close>

lemma rankValue_pos: "2 \<le> rankValue r"
  by (cases r) simp_all

lemma reduceAces_soft:
  "int a \<le> h \<Longrightarrow>
   reduceAces (h + 10 * int a) a = (if 0 < a \<and> h + 10 \<le> 21 then h + 10 else h)"
proof (induction a)
  case 0
  then show ?case by simp
next
  case (Suc a)
  show ?case
  proof (cases a)
    case 0
    then show ?thesis by simp
  next
    case (Suc b)
    have over: "h + 10 * int (Suc a) > 21" using Suc.prems Suc by simp
    have step: "reduceAces (h + 10 * int (Suc a)) (Suc a) = reduceAces (h + 10 * int a) a"
      using over by (simp add: algebra_simps)
    have "int a \<le> h" using Suc.prems by simp
    from Suc.IH[OF this] step Suc show ?thesis by simp
  qed
qed

lemma values_split:
  "\<forall>c \<in> set hand. deckCard c \<Longrightarrow>
   sum_list (map card_value hand) =
     hardTotal hand + 10 * int (length (filter (\<lambda>c. rank c = RA) hand))"
  by (induction hand) (auto simp: hardTotal_def deckCard_def)

lemma aces_le_hardTotal:
  "\<forall>c \<in> set hand. deckCard c \<Longrightarrow>
   int (length (filter (\<lambda>c. rank c = RA) hand)) \<le> hardTotal hand"
proof (induction hand)
  case Nil
  then show ?case by (simp add: hardTotal_def)
next
  case (Cons c hand)
  have "2 \<le> rankValue (rank c)" by (rule rankValue_pos)
  with Cons show ?case by (auto simp: hardTotal_def deckCard_def)
qed

lemma calculateHandScore_standard:
  assumes "\<forall>c \<in> set hand. deckCard c"
  shows "calculateHandScore hand = standardScore hand"
proof -
  let ?a = "length (filter (\<lambda>c. rank c = RA) hand)"
  have pos: "0 < ?a \<longleftrightarrow> list_ex (\<lambda>c. rank c = RA) hand"
    by (auto simp: list_ex_iff filter_empty_conv)
  have "calculateHandScore hand = reduceAces (hardTotal hand + 10 * int ?a) ?a"
    by (simp add: calculateHandScore_def values_split[OF assms])
  also have "\<dots> = (if 0 < ?a \<and> hardTotal hand + 10 \<le> 21
                    then hardTotal hand + 10 else hardTotal hand)"
    by (rule reduceAces_soft[OF aces_le_hardTotal[OF assms]])
  finally show ?thesis by (simp only: standardScore_def pos split: if_splits)
qed

text \<open>
  C5. For every hand of deck cards, \<open>calculateHandScore\<close> adds the card values with each
  ace at 11 and takes 10 off per ace while the total is over 21 and an ace is left, and
  the result is the standard blackjack score (one ace counts 11 exactly when that does
  not go over 21): an ace and a king score 21, two aces 12, two aces and a nine 21.
\<close>

theorem C5_soft_ace_scoring:
  "((\<forall>c \<in> set hand. deckCard c) \<longrightarrow>
      calculateHandScore hand =
        reduceAces (sum_list (map (\<lambda>c. rankValue (rank c)) hand))
          (length (filter (\<lambda>c. rank c = RA) hand))
      \<and> calculateHandScore hand = standardScore hand)
   \<and> calculateHandScore [makeCard s1 RA t1, makeCard s2 RK t2] = 21
   \<and> calculateHandScore [makeCard s1 RA t1, makeCard s2 RA t2] = 12
   \<and> calculateHandScore [makeCard s1 RA t1, makeCard s2 RA t2, makeCard s3 R9 t3] = 21"
proof (intro conjI impI)
  assume wf: "\<forall>c \<in> set hand. deckCard c"
  have eq: "map card_value hand = map (\<lambda>c. rankValue (rank c)) hand"
    using wf by (simp add: deckCard_def)
  show "calculateHandScore hand =
        reduceAces (sum_list (map (\<lambda>c. rankValue (rank c)) hand))
          (length (filter (\<lambda>c. rank c = RA) hand))"
    unfolding calculateHandScore_def eq ..
  show "calculateHandScore hand = standardScore hand"
    by (rule calculateHandScore_standard[OF wf])
next
  show "calculateHandScore [makeCard s1 RA t1, makeCard s2 RK t2] = 21"
    by (simp add: calculateHandScore_def makeCard_def)
  show "calculateHandScore [makeCard s1 RA t1, makeCard s2 RA t2] = 12"
    by (simp add: calculateHandScore_def makeCard_def)
  show "calculateHandScore [makeCard s1 RA t1, makeCard s2 RA t2, makeCard s3 R9 t3] = 21"
    by (simp add: calculateHandScore_def makeCard_def)
qed

theorem C5_soft_ace_scoring_witness:
  "deckCard (makeCard spades RA ''a'') \<and> deckCard (makeCard hearts RA ''b'')
   \<and> deckCard (makeCard clubs R9 ''c'')
   \<and> calculateHandScore
        [makeCard spades RA ''a'', makeCard hearts RA ''b'', makeCard clubs R9 ''c''] = 21
   \<and> standardScore
        [makeCard spades RA ''a'', makeCard hearts RA ''b'', makeCard clubs R9 ''c''] = 21"
  using C5_soft_ace_scoring
    [of "[makeCard spades RA ''a'', makeCard hearts RA ''b'', makeCard clubs R9 ''c'']"
        spades "''a''" hearts "''b''" clubs "''c''"]
  by (simp add: deckCard_def makeCard_def)

section \<open>Evaluation of the sample runs\<close>

lemma floor_numeral_div:
  "\<lfloor>(numeral a / numeral b :: rat)\<rfloor> = numeral a div numeral b"
  using floor_divide_of_int_eq[of "numeral a" "numeral b", where ?'a = rat] by simp

lemma sample_cards:
  "makeCard spades R10 ''p'' =
     \<lparr>card_id = ''10-spades-p'', suit = spades, rank = R10, card_value = 10, upgrades = []\<rparr>"
  "makeCard hearts R9 ''p'' =
     \<lparr>card_id = ''9-hearts-p'', suit = hearts, rank = R9, card_value = 9, upgrades = []\<rparr>"
  "makeCard clubs R5 ''p'' =
     \<lparr>card_id = ''5-clubs-p'', suit = clubs, rank = R5, card_value = 5, upgrades = []\<rparr>"
  "makeCard diamonds RK ''p'' =
     \<lparr>card_id = ''K-diamonds-p'', suit = diamonds, rank = RK, card_value = 10,
      upgrades = []\<rparr>"
  "makeCard diamonds R3 ''p'' =
     \<lparr>card_id = ''3-diamonds-p'', suit = diamonds, rank = R3, card_value = 3,
      upgrades = []\<rparr>"
  "makeCard clubs R2 ''p'' =
     \<lparr>card_id = ''2-clubs-p'', suit = clubs, rank = R2, card_value = 2, upgrades = []\<rparr>"
  "makeCard hearts R10 ''d'' =
     \<lparr>card_id = ''10-hearts-d'', suit = hearts, rank = R10, card_value = 10, upgrades = []\<rparr>"
  "makeCard clubs R9 ''d'' =
     \<lparr>card_id = ''9-clubs-d'', suit = clubs, rank = R9, card_value = 9, upgrades = []\<rparr>"
  by (simp_all add: makeCard_def)

lemma sampleRun_fields:
  "credits sampleRun = 90"
  "essence sampleRun = 0"
  "playerDeck sampleRun =
     [makeCard spades R10 ''p'', makeCard hearts R9 ''p'', makeCard clubs R5 ''p'',
      makeCard diamonds RK ''p'', makeCard diamonds R3 ''p'', makeCard clubs R2 ''p'']"
  "drawPile sampleRun =
     [makeCard clubs R5 ''p'', makeCard diamonds RK ''p'', makeCard diamonds R3 ''p'',
      makeCard clubs R2 ''p'']"
  "discardPile sampleRun = []"
  "inventory sampleRun = [consumableEntry ''coolant'' ''System Coolant'' 25 reduce_threat]"
  "activePassives sampleRun = []"
  "unlockedUpgrades sampleRun = STARTING_UPGRADE_IDS"
  "offeredUpgradeIds sampleRun = []"
  "playerHand sampleRun = [makeCard spades R10 ''p'', makeCard hearts R9 ''p'']"
  "dealerHand sampleRun = [makeCard hearts R10 ''d'', makeCard clubs R9 ''d'']"
  "currentBet sampleRun = 10"
  "dealerCardRevealed sampleRun = False"
  "houseLevel sampleRun = 1"
  "corruptionTokens sampleRun = 1"
  "corruptionThreshold sampleRun = 8"
  "phase sampleRun = playing"
  "message sampleRun = ''Hit or Stand?''"
  by (simp_all add: sampleRun_def)

lemma bettingRun_fields:
  "credits bettingRun = 100"
  "essence bettingRun = 0"
  "playerDeck bettingRun = playerDeck sampleRun"
  "drawPile bettingRun = playerDeck sampleRun"
  "discardPile bettingRun = []"
  "inventory bettingRun = inventory sampleRun"
  "activePassives bettingRun = []"
  "unlockedUpgrades bettingRun = STARTING_UPGRADE_IDS"
  "offeredUpgradeIds bettingRun = []"
  "playerHand bettingRun = []"
  "dealerHand bettingRun = []"
  "currentBet bettingRun = 0"
  "dealerCardRevealed bettingRun = False"
  "houseLevel bettingRun = 1"
  "corruptionTokens bettingRun = 1"
  "corruptionThreshold bettingRun = 8"
  "phase bettingRun = betting"
  "message bettingRun = ''Place your bet to begin.''"
  by (simp_all add: bettingRun_def sampleRun_fields)

lemmas sample_defs =
  sampleRun_fields bettingRun_fields sample_cards consumableEntry_def zeros_def
  keepOrder_def dealerTag_def STARTING_UPGRADE_IDS_def

lemmas engine_defs =
  drawCard_def popCard_def processCardEffects_def dealtEffects_def pushDrawn_def
  calculateHandScore_def hasPassive_def hasHack_def isBossLevel_def doubleBet_def
  doubleDraw_def Let_def split_beta

section \<open>Betting\<close>

lemma placeBet_insufficient:
  "credits s < b \<Longrightarrow> placeBet s b tag rnd = s\<lparr>message := ''Not enough credits.''\<rparr>"
  by (simp add: placeBet_def)

lemma pushDrawn_sum:
  "sum_list (map f (pushDrawn hand c)) =
     sum_list (map f hand) + (case c of None \<Rightarrow> 0 | Some x \<Rightarrow> f x)"
  for f :: "PlayingCard \<Rightarrow> rat"
  by (cases c) (simp_all add: pushDrawn_def)

lemma dealtEffects_credit:
  "creditDelta (dealtEffects s c) =
     (case c of None \<Rightarrow> 0 | Some x \<Rightarrow> creditDelta (processCardEffects s x))"
  by (cases c) (simp_all add: dealtEffects_def)

lemma dealtEffects_corruption:
  "corruptionDelta (dealtEffects s c) =
     (case c of None \<Rightarrow> 0 | Some x \<Rightarrow> corruptionDelta (processCardEffects s x))"
  by (cases c) (simp_all add: dealtEffects_def)

lemma placeBet_valid:
  assumes "\<not> credits s < b"
  shows "credits (placeBet s b tag rnd) =
           credits s - b
           + sum_list (map (\<lambda>c. creditDelta (processCardEffects s c))
                         (playerHand (placeBet s b tag rnd)))"
    and "currentBet (placeBet s b tag rnd) = b"
    and "phase (placeBet s b tag rnd) = playing \<or> phase (placeBet s b tag rnd) = dealer_turn"
    and "corruptionTokens (placeBet s b tag rnd) =
           max 0 (corruptionTokens s
                  + sum_list (map (\<lambda>c. corruptionDelta (processCardEffects s c))
                                (playerHand (placeBet s b tag rnd))))"
  using assms
  by (simp_all add: placeBet_def Let_def split_beta pushDrawn_sum dealtEffects_credit
                    dealtEffects_corruption)

text \<open>
  C4, as the code has it. \<open>placeBet\<close> tests the credits and nothing else. With a bet
  above the credits it changes the message only. Otherwise, in whatever phase it is
  called, it takes the bet off the credits at once (and adds the credit bonuses of the
  cards it deals), records the bet and moves to \<open>playing\<close> or \<open>dealer_turn\<close>.
\<close>

theorem C4_placeBet_checks_credits:
  "(credits s < b \<longrightarrow> placeBet s b tag rnd = s\<lparr>message := ''Not enough credits.''\<rparr>)
   \<and> (\<not> credits s < b \<longrightarrow>
        credits (placeBet s b tag rnd) =
          credits s - b
          + sum_list (map (\<lambda>c. creditDelta (processCardEffects s c))
                        (playerHand (placeBet s b tag rnd)))
        \<and> currentBet (placeBet s b tag rnd) = b
        \<and> (phase (placeBet s b tag rnd) = playing
            \<or> phase (placeBet s b tag rnd) = dealer_turn))"
  using placeBet_insufficient[of s b tag rnd] placeBet_valid(1,2,3)[of s b tag rnd]
  by blast

lemma placeBet_bettingRun:
  "credits (placeBet bettingRun 10 dealerTag zeros) = 90"
  "currentBet (placeBet bettingRun 10 dealerTag zeros) = 10"
  "phase (placeBet bettingRun 10 dealerTag zeros) = playing"
  "map card_id (playerHand (placeBet bettingRun 10 dealerTag zeros)) =
     [''2-clubs-p'', ''3-diamonds-p'']"
  by (simp_all add: placeBet_def sample_defs engine_defs)

theorem C4_placeBet_checks_credits_witness:
  "credits bettingRun < 1000
   \<and> placeBet bettingRun 1000 dealerTag zeros
       = bettingRun\<lparr>message := ''Not enough credits.''\<rparr>
   \<and> \<not> credits bettingRun < 10
   \<and> credits (placeBet bettingRun 10 dealerTag zeros) = 90
   \<and> currentBet (placeBet bettingRun 10 dealerTag zeros) = 10
   \<and> phase (placeBet bettingRun 10 dealerTag zeros) = playing"
  using C4_placeBet_checks_credits[of bettingRun 1000 dealerTag zeros]
        C4_placeBet_checks_credits[of bettingRun 10 dealerTag zeros]
  by (simp add: placeBet_bettingRun bettingRun_fields)

text \<open>
  C4, as the specification has it, fails: called outside the betting phase with enough
  credits, \<open>placeBet\<close> is not a no-op. On the sample run, which is in the playing phase,
  it takes a new bet of 10 and deals a new hand.
\<close>

theorem C4_placeBet_outside_betting:
  "phase sampleRun \<noteq> betting
   \<and> \<not> (\<exists>m. placeBet sampleRun 10 dealerTag zeros = sampleRun\<lparr>message := m\<rparr>)"
proof -
  have c: "credits (placeBet sampleRun 10 dealerTag zeros) = 80"
    by (simp add: placeBet_def sample_defs engine_defs)
  have "placeBet sampleRun 10 dealerTag zeros \<noteq> sampleRun\<lparr>message := m\<rparr>" for m
  proof
    assume "placeBet sampleRun 10 dealerTag zeros = sampleRun\<lparr>message := m\<rparr>"
    then have "credits (placeBet sampleRun 10 dealerTag zeros)
                 = credits (sampleRun\<lparr>message := m\<rparr>)"
      by (rule arg_cong)
    with c show False by (simp add: sampleRun_fields)
  qed
  moreover have "phase sampleRun \<noteq> betting" by (simp add: sampleRun_fields)
  ultimately show ?thesis by blast
qed

section \<open>Double Down\<close>

lemma doubleDown_no_card:
  "draw_card (fst (drawCard (drawPile s) (discardPile s) rnd)) = None \<Longrightarrow>
   doubleDown s rnd = (doubleBet s, None)"
  by (simp add: doubleDown_def Let_def split_beta)

lemma doubleDown_stake:
  assumes "draw_card (fst (drawCard (drawPile s) (discardPile s) rnd)) = Some c"
  shows "currentBet (fst (doubleDown s rnd)) = 4 * currentBet s"
    and "credits (fst (doubleDown s rnd)) =
           credits s - 3 * currentBet s + creditDelta (processCardEffects s c)
             - (if hasPassive s ''memory_leak'' then 1 else 0)"
    and "playerHand (fst (doubleDown s rnd)) = playerHand s @ [c]"
    and "essence (fst (doubleDown s rnd)) =
           essence s + essenceDelta (processCardEffects s c) + 5"
    and "corruptionTokens (fst (doubleDown s rnd)) =
           max 0 (corruptionTokens s + corruptionDelta (processCardEffects s c))"
    and "calculateHandScore (playerHand s @ [c]) > 21 \<Longrightarrow>
           phase (fst (doubleDown s rnd)) = round_over
           \<and> snd (doubleDown s rnd) =
               Some (ScheduledResolve s (playerHand s @ [c]) (dealerHand s)
                       (currentBet s * 2) True)"
    and "\<not> calculateHandScore (playerHand s @ [c]) > 21 \<Longrightarrow>
           phase (fst (doubleDown s rnd)) = dealer_turn \<and> snd (doubleDown s rnd) = None"
  using assms
  by (simp_all add: doubleDown_def doubleDraw_def doubleBet_def Let_def split_beta)

text \<open>
  C3, at one run. The sample run is in the playing phase with two
  cards in hand, a bet of 10 and 90 credits. The handler queues two updaters, and each
  takes the current bet off the credits and doubles the bet: after Double Down the bet
  is 40 and the credits are 60, where one doubling would give a bet of 20 and 80
  credits. One card is drawn (the 2 of clubs, for a score of 21), its essence and the
  flat 5 are added, and the phase is \<open>dealer_turn\<close> with no timer pending.
\<close>

theorem C3_double_down_on_sample:
  "phase sampleRun = playing
   \<and> length (playerHand sampleRun) = 2
   \<and> currentBet sampleRun = 10
   \<and> credits sampleRun = 90
   \<and> currentBet (fst (doubleDown sampleRun zeros)) = 40
   \<and> credits (fst (doubleDown sampleRun zeros)) = 60
   \<and> map card_id (playerHand (fst (doubleDown sampleRun zeros))) =
       [''10-spades-p'', ''9-hearts-p'', ''2-clubs-p'']
   \<and> essence (fst (doubleDown sampleRun zeros)) = 6
   \<and> phase (fst (doubleDown sampleRun zeros)) = dealer_turn
   \<and> snd (doubleDown sampleRun zeros) = None"
  by (simp add: doubleDown_def sample_defs engine_defs)

section \<open>Corruption tokens stay at or above zero\<close>

lemma hit_no_card:
  "draw_card (fst (drawCard (drawPile s) (discardPile s) rnd)) = None \<Longrightarrow>
   hit s rnd = (s, None)"
  by (simp add: hit_def Let_def split_beta)

lemma hit_tokens:
  "draw_card (fst (drawCard (drawPile s) (discardPile s) rnd)) = Some c \<Longrightarrow>
   corruptionTokens (fst (hit s rnd)) =
     max 0 (corruptionTokens s + corruptionDelta (processCardEffects s c))"
  by (simp add: hit_def Let_def split_beta)

lemma useConsumable_tokens:
  "corruptionTokens (useConsumable s i) =
     (if i < length (inventory s) \<and> consumable_type (inventory s ! i) = reduce_threat
      then max 0 (corruptionTokens s - 2) else corruptionTokens s)"
  by (simp add: useConsumable_def Let_def)

lemma actions_tokens_nonneg:
  assumes "0 \<le> corruptionTokens s"
  shows "0 \<le> corruptionTokens (placeBet s b tag rnd)"
    and "0 \<le> corruptionTokens (fst (hit s rnd))"
    and "0 \<le> corruptionTokens (fst (doubleDown s rnd))"
    and "0 \<le> corruptionTokens (useConsumable s i)"
proof -
  show "0 \<le> corruptionTokens (placeBet s b tag rnd)"
  proof (cases "credits s < b")
    case True
    then show ?thesis using assms by (simp add: placeBet_insufficient)
  next
    case False
    then show ?thesis by (simp add: placeBet_valid(4))
  qed
  show "0 \<le> corruptionTokens (fst (hit s rnd))"
  proof (cases "draw_card (fst (drawCard (drawPile s) (discardPile s) rnd))")
    case None
    then show ?thesis using assms by (simp add: hit_no_card)
  next
    case (Some c)
    then show ?thesis by (simp add: hit_tokens)
  qed
  show "0 \<le> corruptionTokens (fst (doubleDown s rnd))"
  proof (cases "draw_card (fst (drawCard (drawPile s) (discardPile s) rnd))")
    case None
    then show ?thesis using assms by (simp add: doubleDown_no_card doubleBet_def)
  next
    case (Some c)
    then show ?thesis by (simp add: doubleDown_stake(5))
  qed
  show "0 \<le> corruptionTokens (useConsumable s i)"
    using assms by (simp add: useConsumable_tokens)
qed

text \<open>
  C10. \<open>placeBet\<close>, \<open>hit\<close>, Double Down and \<open>useConsumable\<close> never leave a negative
  number of corruption tokens behind: each of them that changes the tokens stores
  \<open>max 0\<close> of the new count, so that the cards' corruption-reducing upgrades and the
  System Coolant (2 off) stop at 0.
\<close>

theorem C10_corruption_never_negative:
  "(0 \<le> corruptionTokens s \<longrightarrow>
      0 \<le> corruptionTokens (placeBet s b tag rnd)
      \<and> 0 \<le> corruptionTokens (fst (hit s rnd))
      \<and> 0 \<le> corruptionTokens (fst (doubleDown s rnd))
      \<and> 0 \<le> corruptionTokens (useConsumable s i))
   \<and> (\<not> credits s < b \<longrightarrow>
        corruptionTokens (placeBet s b tag rnd) =
          max 0 (corruptionTokens s
                 + sum_list (map (\<lambda>c. corruptionDelta (processCardEffects s c))
                               (playerHand (placeBet s b tag rnd)))))
   \<and> (draw_card (fst (drawCard (drawPile s) (discardPile s) rnd)) = Some c \<longrightarrow>
        corruptionTokens (fst (hit s rnd)) =
          max 0 (corruptionTokens s + corruptionDelta (processCardEffects s c))
        \<and> corruptionTokens (fst (doubleDown s rnd)) =
            max 0 (corruptionTokens s + corruptionDelta (processCardEffects s c)))
   \<and> (i < length (inventory s) \<and> consumable_type (inventory s ! i) = reduce_threat \<longrightarrow>
        corruptionTokens (useConsumable s i) = max 0 (corruptionTokens s - 2))"
  using actions_tokens_nonneg placeBet_valid(4)[of s b tag rnd]
        hit_tokens[of s rnd c] doubleDown_stake(5)[of s rnd c] useConsumable_tokens[of s i]
  by simp

lemma coolRun_piles:
  "drawPile coolRun =
     [makeCard clubs R5 ''p'', makeCard diamonds RK ''p'', makeCard diamonds R3 ''p'',
      \<lparr>card_id = ''2-clubs-p'', suit = clubs, rank = R2, card_value = 2,
       upgrades = [coolingFan, coolingFan]\<rparr>]"
  "discardPile coolRun = []"
  by (simp_all add: coolRun_def sampleRun_fields sample_cards addUpgrade_def)

lemma coolRun_fields:
  "corruptionTokens coolRun = 1"
  "credits coolRun = 90"
  "inventory coolRun = [consumableEntry ''coolant'' ''System Coolant'' 25 reduce_threat]"
  by (simp_all add: coolRun_def sampleRun_fields)

lemma coolRun_next_card:
  "draw_card (fst (drawCard (drawPile coolRun) (discardPile coolRun) zeros)) =
     Some \<lparr>card_id = ''2-clubs-p'', suit = clubs, rank = R2, card_value = 2,
           upgrades = [coolingFan, coolingFan]\<rparr>"
  by (simp add: coolRun_piles drawCard_def popCard_def)

lemma coolRun_effect:
  "corruptionDelta
     (processCardEffects coolRun
        \<lparr>card_id = ''2-clubs-p'', suit = clubs, rank = R2, card_value = 2,
         upgrades = [coolingFan, coolingFan]\<rparr>) = - 2"
  by (simp add: processCardEffects_def upgradeEffect_def coolingFan_def upgradeEntry_def
                Let_def)

theorem C10_corruption_never_negative_witness:
  "0 \<le> corruptionTokens coolRun
   \<and> corruptionTokens coolRun = 1
   \<and> draw_card (fst (drawCard (drawPile coolRun) (discardPile coolRun) zeros)) =
       Some \<lparr>card_id = ''2-clubs-p'', suit = clubs, rank = R2, card_value = 2,
             upgrades = [coolingFan, coolingFan]\<rparr>
   \<and> corruptionTokens (fst (hit coolRun zeros)) = 0
   \<and> corruptionTokens (fst (doubleDown coolRun zeros)) = 0
   \<and> consumable_type (inventory coolRun ! 0) = reduce_threat
   \<and> corruptionTokens (useConsumable coolRun 0) = 0
   \<and> 0 \<le> corruptionTokens (placeBet coolRun 10 dealerTag zeros)"
  using C10_corruption_never_negative
          [of coolRun 10 dealerTag zeros 0
              "\<lparr>card_id = ''2-clubs-p'', suit = clubs, rank = R2, card_value = 2,
                upgrades = [coolingFan, coolingFan]\<rparr>"]
  by (simp add: coolRun_next_card coolRun_effect coolRun_fields consumableEntry_def)

section \<open>Prices\<close>

lemma upgradePrice_spec:
  "upgradePrice s g u =
     specPrice True (houseLevel s) (hasPassive s ''encryption_error'')
       (hasHack g ''priority_access'') (upgrade_cost u)"
  by (simp add: upgradePrice_def specPrice_def flooredTimes_def Let_def)

lemma shopPrice_spec:
  "shopPrice s g c =
     specPrice False (houseLevel s) (hasPassive s ''encryption_error'')
       (hasHack g ''priority_access'') c"
  by (simp add: shopPrice_def specPrice_def flooredTimes_def Let_def)

lemma specPrice_hundred:
  "\<not> (isUpgrade \<and> level \<ge> 4) \<Longrightarrow> specPrice isUpgrade level True False 100 = 120"
  "\<not> (isUpgrade \<and> level \<ge> 4) \<Longrightarrow> specPrice isUpgrade level True True 100 = 108"
  by (simp_all add: specPrice_def flooredTimes_def Let_def floor_numeral_div)

lemma purchases_deduct_price:
  "essence (buyUpgrade s g (Some cid) u) =
     (if cid = [] \<or> essence s < upgradePrice s g u then essence s
      else essence s - upgradePrice s g u)"
  "essence (buyConsumable s g item) =
     (if length (inventory s) \<ge> 3 \<or> essence s < shopPrice s g (consumable_cost item)
      then essence s else essence s - shopPrice s g (consumable_cost item))"
  "passive_cost p = Some pc \<Longrightarrow> pc \<noteq> 0 \<Longrightarrow>
   essence (buyPassive s g p) =
     (if essence s < shopPrice s g pc \<or> hasPassive s (passive_id p) then essence s
      else essence s - shopPrice s g pc)"
  by (simp_all add: buyUpgrade_def buyConsumable_def buyPassive_def Let_def)

text \<open>
  C8. The price of a card upgrade, a consumable or a passive is the catalog cost, times
  1.5 at house level 4 and above (card upgrades only), then times 1.2 under the
  Encryption Error curse, then times 0.9 with the Priority Access hack, floored after
  each multiplication, and a purchase that goes through takes exactly that price off the
  essence. A cost of 100 under the curse alone is 120, and 108 with the hack as well.
\<close>

theorem C8_pricing_order:
  "upgradePrice s g u =
     specPrice True (houseLevel s) (hasPassive s ''encryption_error'')
       (hasHack g ''priority_access'') (upgrade_cost u)
   \<and> shopPrice s g cost =
       specPrice False (houseLevel s) (hasPassive s ''encryption_error'')
         (hasHack g ''priority_access'') cost
   \<and> essence (buyUpgrade s g (Some cid) u) =
       (if cid = [] \<or> essence s < upgradePrice s g u then essence s
        else essence s - upgradePrice s g u)
   \<and> essence (buyConsumable s g item) =
       (if length (inventory s) \<ge> 3 \<or> essence s < shopPrice s g (consumable_cost item)
        then essence s else essence s - shopPrice s g (consumable_cost item))
   \<and> (passive_cost p = Some pc \<and> pc \<noteq> 0 \<longrightarrow>
        essence (buyPassive s g p) =
          (if essence s < shopPrice s g pc \<or> hasPassive s (passive_id p) then essence s
           else essence s - shopPrice s g pc))
   \<and> (hasPassive s ''encryption_error'' \<and> houseLevel s < 4 \<and> upgrade_cost u = 100 \<longrightarrow>
        upgradePrice s g u = (if hasHack g ''priority_access'' then 108 else 120))
   \<and> (hasPassive s ''encryption_error'' \<longrightarrow>
        shopPrice s g 100 = (if hasHack g ''priority_access'' then 108 else 120))"
proof -
  have a: "hasPassive s ''encryption_error'' \<Longrightarrow> houseLevel s < 4 \<Longrightarrow> upgrade_cost u = 100
      \<Longrightarrow> upgradePrice s g u = (if hasHack g ''priority_access'' then 108 else 120)"
    by (simp add: upgradePrice_spec specPrice_hundred)
  have b: "hasPassive s ''encryption_error''
      \<Longrightarrow> shopPrice s g 100 = (if hasHack g ''priority_access'' then 108 else 120)"
    by (simp add: shopPrice_spec specPrice_hundred)
  show ?thesis
    using upgradePrice_spec[of s g u] shopPrice_spec[of s g cost]
          purchases_deduct_price(1)[of s g cid u] purchases_deduct_price(2)[of s g item]
          purchases_deduct_price(3)[of p pc s g] a b
    by blast
qed

lemma cursedRun_fields:
  "essence cursedRun = 600"
  "houseLevel cursedRun = 1"
  "inventory cursedRun = [consumableEntry ''coolant'' ''System Coolant'' 25 reduce_threat]"
  "hasPassive cursedRun ''encryption_error''"
  "\<not> hasPassive cursedRun ''vip_protocol''"
  by (simp_all add: cursedRun_def sampleRun_fields hasPassive_def passiveEntry_def)

theorem C8_pricing_order_witness:
  "hasPassive cursedRun ''encryption_error''
   \<and> houseLevel cursedRun < 4
   \<and> upgrade_cost (upgradeEntry ''lucky_charm'' ''Lucky Charm'' 100 critical (1 / 4)) = 100
   \<and> upgradePrice cursedRun noHacks
        (upgradeEntry ''lucky_charm'' ''Lucky Charm'' 100 critical (1 / 4)) = 120
   \<and> upgradePrice cursedRun priorityAccess
        (upgradeEntry ''lucky_charm'' ''Lucky Charm'' 100 critical (1 / 4)) = 108
   \<and> passive_cost (passiveEntry ''auto_miner'' ''Auto-Miner'' boon (Some 100)) = Some 100
   \<and> essence (buyPassive cursedRun priorityAccess
                 (passiveEntry ''auto_miner'' ''Auto-Miner'' boon (Some 100))) = 492
   \<and> essence (buyUpgrade cursedRun noHacks (Some ''2-clubs-p'')
                 (upgradeEntry ''lucky_charm'' ''Lucky Charm'' 100 critical (1 / 4))) = 480"
  using C8_pricing_order
          [of cursedRun noHacks "upgradeEntry ''lucky_charm'' ''Lucky Charm'' 100 critical (1 / 4)"
              100 "''2-clubs-p''" "consumableEntry ''coolant'' ''System Coolant'' 25 reduce_threat"
              "passiveEntry ''auto_miner'' ''Auto-Miner'' boon (Some 100)" 100]
        C8_pricing_order
          [of cursedRun priorityAccess
              "upgradeEntry ''lucky_charm'' ''Lucky Charm'' 100 critical (1 / 4)"
              100 "''2-clubs-p''" "consumableEntry ''coolant'' ''System Coolant'' 25 reduce_threat"
              "passiveEntry ''auto_miner'' ''Auto-Miner'' boon (Some 100)" 100]
  by (simp add: cursedRun_fields hasHack_def noHacks_def priorityAccess_def upgradeEntry_def
                passiveEntry_def hasPassive_def cursedRun_def sampleRun_fields)

section \<open>Purging a card\<close>

lemma purgeCard_refused:
  "cid \<noteq> [] \<Longrightarrow> length (playerDeck s) \<le> 5 \<or> essence s < of_nat (purgeCost s) \<Longrightarrow>
   \<exists>m. purgeCard s (Some cid) = s\<lparr>message := m\<rparr>"
  by (auto simp add: purgeCard_def Let_def)

lemma purgeCard_done:
  "cid \<noteq> [] \<Longrightarrow> \<not> (length (playerDeck s) \<le> 5 \<or> essence s < of_nat (purgeCost s)) \<Longrightarrow>
   purgeCard s (Some cid) =
     s\<lparr>essence := essence s - of_nat (purgeCost s),
       playerDeck := filter (\<lambda>c. card_id c \<noteq> cid) (playerDeck s),
       drawPile := filter (\<lambda>c. card_id c \<noteq> cid) (drawPile s),
       discardPile := filter (\<lambda>c. card_id c \<noteq> cid) (discardPile s),
       message := ''Card removed from database.''\<rparr>"
  by (auto simp add: purgeCard_def Let_def)

lemma purgeCost_values:
  "int (purgeCost s) = 75 + max 0 (52 - int (length (playerDeck s))) * 10"
  "length (playerDeck s) = 6 \<Longrightarrow> purgeCost s = 535"
  "length (playerDeck s) = 52 \<Longrightarrow> purgeCost s = 75"
  by (simp_all add: purgeCost_def)

text \<open>
  C9. Purging the selected card costs 75 + max(0, 52 - size of the master deck) x 10
  essence, 535 for six cards and 75 for 52. With a master deck of five cards or fewer,
  or with less essence than the cost, only the message changes. Otherwise the cost is
  taken off the essence and every card with the selected id leaves the master deck, the
  draw pile and the discard pile, and nothing else changes but the message.
\<close>

theorem C9_purge_card:
  "int (purgeCost s) = 75 + max 0 (52 - int (length (playerDeck s))) * 10
   \<and> (length (playerDeck s) = 6 \<longrightarrow> purgeCost s = 535)
   \<and> (length (playerDeck s) = 52 \<longrightarrow> purgeCost s = 75)
   \<and> (cid \<noteq> [] \<and> (length (playerDeck s) \<le> 5 \<or> essence s < of_nat (purgeCost s)) \<longrightarrow>
        (\<exists>m. purgeCard s (Some cid) = s\<lparr>message := m\<rparr>))
   \<and> (cid \<noteq> [] \<and> \<not> (length (playerDeck s) \<le> 5 \<or> essence s < of_nat (purgeCost s)) \<longrightarrow>
        purgeCard s (Some cid) =
          s\<lparr>essence := essence s - of_nat (purgeCost s),
            playerDeck := filter (\<lambda>c. card_id c \<noteq> cid) (playerDeck s),
            drawPile := filter (\<lambda>c. card_id c \<noteq> cid) (drawPile s),
            discardPile := filter (\<lambda>c. card_id c \<noteq> cid) (discardPile s),
            message := ''Card removed from database.''\<rparr>)"
  using purgeCost_values[of s] purgeCard_refused[of cid s] purgeCard_done[of cid s]
  by blast

lemma cursedRun_decks:
  "playerDeck cursedRun = playerDeck sampleRun"
  "drawPile cursedRun = drawPile sampleRun"
  "discardPile cursedRun = []"
  by (simp_all add: cursedRun_def sampleRun_fields)

theorem C9_purge_card_witness:
  "length (playerDeck cursedRun) = 6
   \<and> purgeCost cursedRun = 535
   \<and> essence sampleRun < of_nat (purgeCost sampleRun)
   \<and> (\<exists>m. purgeCard sampleRun (Some ''2-clubs-p'') = sampleRun\<lparr>message := m\<rparr>)
   \<and> \<not> essence cursedRun < of_nat (purgeCost cursedRun)
   \<and> essence (purgeCard cursedRun (Some ''2-clubs-p'')) = 65
   \<and> map card_id (playerDeck (purgeCard cursedRun (Some ''2-clubs-p''))) =
       [''10-spades-p'', ''9-hearts-p'', ''5-clubs-p'', ''K-diamonds-p'', ''3-diamonds-p'']
   \<and> map card_id (drawPile (purgeCard cursedRun (Some ''2-clubs-p''))) =
       [''5-clubs-p'', ''K-diamonds-p'', ''3-diamonds-p'']"
proof -
  have len: "length (playerDeck cursedRun) = 6" "length (playerDeck sampleRun) = 6"
    by (simp_all add: cursedRun_decks sampleRun_fields)
  have cost: "purgeCost cursedRun = 535" "purgeCost sampleRun = 535"
    using C9_purge_card[of cursedRun "''2-clubs-p''"] C9_purge_card[of sampleRun "''2-clubs-p''"]
          len by simp_all
  show ?thesis
    using C9_purge_card[of cursedRun "''2-clubs-p''"] C9_purge_card[of sampleRun "''2-clubs-p''"]
          len cost
    by (simp add: cursedRun_fields cursedRun_decks sampleRun_fields sample_cards)
qed

section \<open>Round resolution\<close>

lemma Rep_rand_range: "0 \<le> Rep_rand r" "Rep_rand r < 1"
  using Rep_rand[of r] by simp_all

lemma shieldTrials_char:
  "shieldTrials us t rnd =
     (t \<or> (\<exists>i < length (filter (\<lambda>u. effectType u = shield) us).
             Rep_rand (rnd !! i) < upgrade_value (filter (\<lambda>u. effectType u = shield) us ! i)),
      sdrop (length (filter (\<lambda>u. effectType u = shield) us)) rnd)"
proof (induction us arbitrary: t rnd)
  case Nil
  then show ?case by simp
next
  case (Cons u us)
  show ?case
  proof (cases "effectType u = shield")
    case False
    then show ?thesis by (simp add: Cons.IH)
  next
    case True
    let ?sh = "filter (\<lambda>u. effectType u = shield) us"
    have ex: "(\<exists>i < Suc (length ?sh). Rep_rand (rnd !! i) < upgrade_value ((u # ?sh) ! i))
          \<longleftrightarrow> Rep_rand (shd rnd) < upgrade_value u
              \<or> (\<exists>i < length ?sh. Rep_rand (stl rnd !! i) < upgrade_value (?sh ! i))"
      by (auto simp: less_Suc_eq_0_disj)
    show ?thesis using True ex by (auto simp add: Cons.IH)
  qed
qed

lemma shieldsOf_handUpgrades:
  "filter (\<lambda>u. effectType u = shield) (handUpgrades pHand) = shieldsOf pHand"
  by (simp add: shieldsOf_def handUpgrades_def filter_concat comp_def)

lemma shieldTriggered_iff:
  "fst (shieldTrials (handUpgrades pHand) False rnd) \<longleftrightarrow>
     (\<exists>i < length (shieldsOf pHand). trialSucceeds pHand rnd i)"
  by (simp add: shieldTrials_char shieldsOf_handUpgrades trialSucceeds_def)

lemma sure_shield_triggers:
  assumes "u \<in> set (shieldsOf pHand)" and "1 \<le> upgrade_value u"
  shows "\<exists>i < length (shieldsOf pHand). trialSucceeds pHand rnd i"
proof -
  from assms(1) obtain i where i: "i < length (shieldsOf pHand)" "shieldsOf pHand ! i = u"
    by (auto simp: in_set_conv_nth)
  have "Rep_rand (rnd !! i) < upgrade_value u"
    using Rep_rand_range(2)[of "rnd !! i"] assms(2) by simp
  with i show ?thesis by (auto simp: trialSucceeds_def)
qed

lemma settle_busted:
  "settle st pHand dHand bet True rnd =
     (\<lparr>win = False,
       payout = (if fst (shieldTrials (handUpgrades pHand) False rnd) then bet * (1 / 2) else 0),
       essenceBonus = 0,
       msg = (if fst (shieldTrials (handUpgrades pHand) False rnd)
              then ''FAILURE MITIGATED [SHIELD].'' else ''Busted! House wins.'')\<rparr>,
      snd (shieldTrials (handUpgrades pHand) False rnd))"
  by (simp add: settle_def adjudicate_def applyMultiplier_def Let_def split_beta)

lemma resolveRound_progress:
  "corruptionTokens (resolveRound st pH dH bet busted sr rnd prev) =
     newCorruption (progression st (win (fst (settle st pH dH bet busted rnd)))
                      (msg (fst (settle st pH dH bet busted rnd))) sr
                      (snd (settle st pH dH bet busted rnd)))"
  "houseLevel (resolveRound st pH dH bet busted sr rnd prev) =
     newHouseLevel (progression st (win (fst (settle st pH dH bet busted rnd)))
                      (msg (fst (settle st pH dH bet busted rnd))) sr
                      (snd (settle st pH dH bet busted rnd)))"
  "corruptionThreshold (resolveRound st pH dH bet busted sr rnd prev) =
     newThreshold (progression st (win (fst (settle st pH dH bet busted rnd)))
                      (msg (fst (settle st pH dH bet busted rnd))) sr
                      (snd (settle st pH dH bet busted rnd)))"
  "credits (resolveRound st pH dH bet busted sr rnd prev) =
     credits prev + payout (fst (settle st pH dH bet busted rnd))
       + hookCredits pH (calculateHandScore pH)"
  by (simp_all add: resolveRound_def Let_def split_beta)

lemma progression_lost:
  "newCorruption (progression st False m sr rnd) = corruptionTokens st"
  "newHouseLevel (progression st False m sr rnd) = houseLevel st"
  "newThreshold (progression st False m sr rnd) = corruptionThreshold st"
  by (simp_all add: progression_def)

lemma progression_won:
  "corruptionTokens st + 1 < corruptionThreshold st \<Longrightarrow>
     newCorruption (progression st True m sr rnd) = corruptionTokens st + 1
     \<and> newHouseLevel (progression st True m sr rnd) = houseLevel st
     \<and> newThreshold (progression st True m sr rnd) = corruptionThreshold st"
  "corruptionTokens st + 1 \<ge> corruptionThreshold st \<Longrightarrow>
     newCorruption (progression st True m sr rnd) = 0
     \<and> newHouseLevel (progression st True m sr rnd) = houseLevel st + 1
     \<and> newThreshold (progression st True m sr rnd) = corruptionThreshold st + 2"
  by (simp_all add: progression_def levelUp_def Let_def split_beta)

lemma progression_threshold_mono:
  "corruptionThreshold st \<le> newThreshold (progression st w m sr rnd)"
  by (simp add: progression_def levelUp_def Let_def split_beta)

lemma settle_tie:
  assumes "calculateHandScore pHand = calculateHandScore dHand"
    and "calculateHandScore dHand \<le> 21"
    and "\<not> (length pHand = 2 \<and> calculateHandScore pHand = 21)"
    and "\<not> (length dHand = 2 \<and> calculateHandScore dHand = 21)"
  shows "houseLevel st \<ge> 7 \<or> isBossLevel st \<Longrightarrow>
           \<not> win (fst (settle st pHand dHand bet False rnd))
           \<and> payout (fst (settle st pHand dHand bet False rnd)) = 0"
    and "houseLevel st \<le> 2 \<Longrightarrow>
           win (fst (settle st pHand dHand bet False rnd))
           \<and> payout (fst (settle st pHand dHand bet False rnd)) =
               bet + bet * winMultiplier st pHand"
    and "\<not> (houseLevel st \<ge> 7 \<or> isBossLevel st) \<Longrightarrow> \<not> houseLevel st \<le> 2 \<Longrightarrow>
           \<not> win (fst (settle st pHand dHand bet False rnd))
           \<and> payout (fst (settle st pHand dHand bet False rnd)) = bet"
  using assms
  by (auto simp add: settle_def adjudicate_def applyMultiplier_def isBossLevel_def Let_def
                     split_beta)

lemma sum_list_all_zero:
  "\<forall>x \<in> set xs. f x = 0 \<Longrightarrow> sum_list (map f xs) = 0" for f :: "'a \<Rightarrow> rat"
  by (induction xs) auto

lemma winMultiplier_plain:
  assumes "\<not> list_ex (\<lambda>u. effectType u = critical) (handUpgrades pHand)"
    and "\<not> hasPassive st ''vip_protocol''"
  shows "winMultiplier st pHand = 1"
proof -
  have "sum_list (map (\<lambda>u. if effectType u = critical then upgrade_value u else 0)
                    (handUpgrades pHand)) = 0"
    using assms(1) by (intro sum_list_all_zero) (simp add: list_ex_iff)
  then show ?thesis using assms(2) by (simp add: winMultiplier_def)
qed

text \<open>
  C2, as the code has it. With the player not bust, the dealer at 21 or below, equal
  scores and no natural blackjack on either side: at house level 7 or above, or on a
  boss level, the round is lost with payout 0; at house level 2 or below it is a win
  and the payout multiplier applies as on any win, payout = bet + bet x (1 + the
  critical values of the hand + 0.1 with VIP), which is 2 x bet when the hand has no
  critical upgrade and VIP is not active; otherwise it is a push with payout = bet.
\<close>

theorem C2_tie_resolution:
  "calculateHandScore pHand = calculateHandScore dHand
   \<and> calculateHandScore dHand \<le> 21
   \<and> \<not> (length pHand = 2 \<and> calculateHandScore pHand = 21)
   \<and> \<not> (length dHand = 2 \<and> calculateHandScore dHand = 21)
   \<longrightarrow>
     (houseLevel st \<ge> 7 \<or> isBossLevel st \<longrightarrow>
        \<not> win (fst (settle st pHand dHand bet False rnd))
        \<and> payout (fst (settle st pHand dHand bet False rnd)) = 0)
     \<and> (houseLevel st \<le> 2 \<longrightarrow>
          win (fst (settle st pHand dHand bet False rnd))
          \<and> payout (fst (settle st pHand dHand bet False rnd)) =
              bet + bet * winMultiplier st pHand
          \<and> (\<not> list_ex (\<lambda>u. effectType u = critical) (handUpgrades pHand)
               \<and> \<not> hasPassive st ''vip_protocol'' \<longrightarrow>
               payout (fst (settle st pHand dHand bet False rnd)) = 2 * bet))
     \<and> (\<not> (houseLevel st \<ge> 7 \<or> isBossLevel st) \<and> \<not> houseLevel st \<le> 2 \<longrightarrow>
          \<not> win (fst (settle st pHand dHand bet False rnd))
          \<and> payout (fst (settle st pHand dHand bet False rnd)) = bet)"
proof (intro impI, elim conjE)
  assume h: "calculateHandScore pHand = calculateHandScore dHand"
    "calculateHandScore dHand \<le> 21"
    "\<not> (length pHand = 2 \<and> calculateHandScore pHand = 21)"
    "\<not> (length dHand = 2 \<and> calculateHandScore dHand = 21)"
  note tie = settle_tie[OF h, of st bet rnd]
  have plain: "houseLevel st \<le> 2 \<Longrightarrow>
      \<not> list_ex (\<lambda>u. effectType u = critical) (handUpgrades pHand) \<Longrightarrow>
      \<not> hasPassive st ''vip_protocol'' \<Longrightarrow>
      payout (fst (settle st pHand dHand bet False rnd)) = 2 * bet"
    using tie(2) by (simp add: winMultiplier_plain)
  show "(houseLevel st \<ge> 7 \<or> isBossLevel st \<longrightarrow>
        \<not> win (fst (settle st pHand dHand bet False rnd))
        \<and> payout (fst (settle st pHand dHand bet False rnd)) = 0)
     \<and> (houseLevel st \<le> 2 \<longrightarrow>
          win (fst (settle st pHand dHand bet False rnd))
          \<and> payout (fst (settle st pHand dHand bet False rnd)) =
              bet + bet * winMultiplier st pHand
          \<and> (\<not> list_ex (\<lambda>u. effectType u = critical) (handUpgrades pHand)
               \<and> \<not> hasPassive st ''vip_protocol'' \<longrightarrow>
               payout (fst (settle st pHand dHand bet False rnd)) = 2 * bet))
     \<and> (\<not> (houseLevel st \<ge> 7 \<or> isBossLevel st) \<and> \<not> houseLevel st \<le> 2 \<longrightarrow>
          \<not> win (fst (settle st pHand dHand bet False rnd))
          \<and> payout (fst (settle st pHand dHand bet False rnd)) = bet)"
    using tie plain by blast
qed

lemma critRun_fields:
  "playerHand critRun =
     [\<lparr>card_id = ''10-spades-p'', suit = spades, rank = R10, card_value = 10,
       upgrades = [luckyCharm]\<rparr>,
      makeCard hearts R9 ''p'']"
  "dealerHand critRun = [makeCard hearts R10 ''d'', makeCard clubs R9 ''d'']"
  "houseLevel critRun = 1"
  "activePassives critRun = []"
  "currentBet critRun = 10"
  by (simp_all add: critRun_def sampleRun_fields sample_cards addUpgrade_def)

lemma critRun_scores:
  "calculateHandScore (playerHand critRun) = 19"
  "calculateHandScore (dealerHand critRun) = 19"
  "length (playerHand critRun) = 2"
  "length (dealerHand critRun) = 2"
  by (simp_all add: critRun_fields sample_cards calculateHandScore_def)

lemma critRun_multiplier: "winMultiplier critRun (playerHand critRun) = 5 / 4"
  by (simp add: winMultiplier_def handUpgrades_def critRun_fields sample_cards hasPassive_def
                luckyCharm_def upgradeEntry_def)

lemma sampleRun_scores:
  "calculateHandScore (playerHand sampleRun) = 19"
  "calculateHandScore (dealerHand sampleRun) = 19"
  "length (playerHand sampleRun) = 2"
  "length (dealerHand sampleRun) = 2"
  by (simp_all add: sampleRun_fields sample_cards calculateHandScore_def)

lemma sampleRun_plain:
  "\<not> list_ex (\<lambda>u. effectType u = critical) (handUpgrades (playerHand sampleRun))"
  "\<not> hasPassive sampleRun ''vip_protocol''"
  by (simp_all add: handUpgrades_def sampleRun_fields sample_cards hasPassive_def)

theorem C2_tie_resolution_witness:
  "calculateHandScore (playerHand critRun) = calculateHandScore (dealerHand critRun)
   \<and> calculateHandScore (dealerHand critRun) \<le> 21
   \<and> \<not> (length (playerHand critRun) = 2 \<and> calculateHandScore (playerHand critRun) = 21)
   \<and> \<not> (length (dealerHand critRun) = 2 \<and> calculateHandScore (dealerHand critRun) = 21)
   \<and> houseLevel critRun \<le> 2
   \<and> win (fst (settle critRun (playerHand critRun) (dealerHand critRun) 10 False zeros))
   \<and> payout (fst (settle critRun (playerHand critRun) (dealerHand critRun) 10 False zeros))
       = 10 + 10 * (5 / 4)
   \<and> payout (fst (settle sampleRun (playerHand sampleRun) (dealerHand sampleRun) 10 False
                     zeros)) = 20
   \<and> \<not> win (fst (settle (critRun\<lparr>houseLevel := 3\<rparr>) (playerHand critRun) (dealerHand critRun)
                    10 False zeros))
   \<and> payout (fst (settle (critRun\<lparr>houseLevel := 3\<rparr>) (playerHand critRun)
                     (dealerHand critRun) 10 False zeros)) = 10
   \<and> payout (fst (settle (critRun\<lparr>houseLevel := 5\<rparr>) (playerHand critRun)
                     (dealerHand critRun) 10 False zeros)) = 0"
  using C2_tie_resolution[of "playerHand critRun" "dealerHand critRun" critRun 10 zeros]
        C2_tie_resolution[of "playerHand sampleRun" "dealerHand sampleRun" sampleRun 10 zeros]
        C2_tie_resolution
          [of "playerHand critRun" "dealerHand critRun" "critRun\<lparr>houseLevel := 3\<rparr>" 10 zeros]
        C2_tie_resolution
          [of "playerHand critRun" "dealerHand critRun" "critRun\<lparr>houseLevel := 5\<rparr>" 10 zeros]
  by (simp add: critRun_scores critRun_multiplier critRun_fields(3) sampleRun_scores
                sampleRun_plain sampleRun_fields(14) isBossLevel_def)

text \<open>
  C2, as the specification has it, fails at house level 2 or below: the multiplier is applied to
  the tie win. On the sample run with a Lucky Charm (critical, 0.25) in the hand, 19
  against 19 at house level 1 with a bet of 10 pays 22.5 and not 20.
\<close>

theorem C2_tie_win_takes_multiplier:
  "houseLevel critRun \<le> 2
   \<and> \<not> isBossLevel critRun
   \<and> calculateHandScore (playerHand critRun) = 19
   \<and> calculateHandScore (dealerHand critRun) = 19
   \<and> payout (fst (settle critRun (playerHand critRun) (dealerHand critRun) 10 False zeros))
       = 45 / 2
   \<and> payout (fst (settle critRun (playerHand critRun) (dealerHand critRun) 10 False zeros))
       \<noteq> 2 * 10"
proof -
  have "payout (fst (settle critRun (playerHand critRun) (dealerHand critRun) 10 False zeros))
          = 45 / 2"
    using settle_tie(2)[of "playerHand critRun" "dealerHand critRun" critRun 10 zeros]
    by (simp add: critRun_scores critRun_multiplier critRun_fields(3))
  then show ?thesis
    by (simp add: critRun_scores critRun_fields(3) isBossLevel_def)
qed

section \<open>Busts and shields\<close>

text \<open>
  A resolution with \<open>busted = true\<close>: every shield upgrade of every card of the player
  hand gets a trial of its own, on a random number of its own, which succeeds when the
  number is below the shield's value. If a trial succeeds the payout is half the bet,
  otherwise it is 0, and the round is not a win. The corruption tokens, the house level
  and the threshold written to the run are those of \<open>st\<close>, the run of the render that
  made the call, and not those of \<open>prev\<close>, the run that is updated.
\<close>

lemma bust_shield_payout:
  "(fst (shieldTrials (handUpgrades pHand) False rnd) \<longleftrightarrow>
      (\<exists>i < length (shieldsOf pHand). trialSucceeds pHand rnd i))
   \<and> \<not> win (fst (settle st pHand dHand bet True rnd))
   \<and> payout (fst (settle st pHand dHand bet True rnd)) =
       (if \<exists>i < length (shieldsOf pHand). trialSucceeds pHand rnd i
        then bet * (1 / 2) else 0)
   \<and> credits (resolveRound st pHand dHand bet True sr rnd prev) =
       credits prev + payout (fst (settle st pHand dHand bet True rnd))
         + hookCredits pHand (calculateHandScore pHand)
   \<and> corruptionTokens (resolveRound st pHand dHand bet True sr rnd prev) = corruptionTokens st
   \<and> houseLevel (resolveRound st pHand dHand bet True sr rnd prev) = houseLevel st
   \<and> corruptionThreshold (resolveRound st pHand dHand bet True sr rnd prev) =
       corruptionThreshold st
   \<and> ((\<exists>u \<in> set (shieldsOf pHand). 1 \<le> upgrade_value u) \<longrightarrow>
        payout (fst (settle st pHand dHand bet True rnd)) = bet * (1 / 2))"
proof -
  have w: "\<not> win (fst (settle st pHand dHand bet True rnd))"
    by (simp add: settle_busted)
  have p: "payout (fst (settle st pHand dHand bet True rnd)) =
       (if \<exists>i < length (shieldsOf pHand). trialSucceeds pHand rnd i
        then bet * (1 / 2) else 0)"
    by (simp add: settle_busted shieldTriggered_iff)
  have sure: "(\<exists>u \<in> set (shieldsOf pHand). 1 \<le> upgrade_value u) \<longrightarrow>
        payout (fst (settle st pHand dHand bet True rnd)) = bet * (1 / 2)"
    using sure_shield_triggers[of _ pHand rnd] by (auto simp add: p)
  have t: "corruptionTokens (resolveRound st pHand dHand bet True sr rnd prev)
             = corruptionTokens st"
    "houseLevel (resolveRound st pHand dHand bet True sr rnd prev) = houseLevel st"
    "corruptionThreshold (resolveRound st pHand dHand bet True sr rnd prev) =
       corruptionThreshold st"
    using w by (simp_all add: resolveRound_progress progression_lost)
  show ?thesis
    using w p sure t shieldTriggered_iff[of pHand rnd]
          resolveRound_progress(4)[of st pHand dHand bet True sr rnd prev]
    by blast
qed

lemma bustHand_shields: "shieldsOf (bustHand u) = (if effectType u = shield then [u] else [])"
  by (simp add: shieldsOf_def bustHand_def makeCard_def)

lemma bustHand_score: "calculateHandScore (bustHand u) = 29"
  by (simp add: calculateHandScore_def bustHand_def makeCard_def)

lemma sample_rolls:
  "Rep_rand (shd zeros) = 0"
  "Rep_rand (shd highs) = 99 / 100"
  by (simp_all add: zeros_def highs_def rand_zero.rep_eq rand_high.rep_eq)

lemma bust_shield_payout_sample:
  "(\<exists>u \<in> set (shieldsOf (bustHand sureShield)). 1 \<le> upgrade_value u)
   \<and> payout (fst (settle sampleRun (bustHand sureShield) (dealerHand sampleRun) 10 True highs))
       = 5
   \<and> trialSucceeds (bustHand firewallShard) zeros 0
   \<and> payout (fst (settle sampleRun (bustHand firewallShard) (dealerHand sampleRun) 10 True
                     zeros)) = 5
   \<and> \<not> trialSucceeds (bustHand firewallShard) highs 0
   \<and> payout (fst (settle sampleRun (bustHand firewallShard) (dealerHand sampleRun) 10 True
                     highs)) = 0
   \<and> corruptionTokens
        (resolveRound sampleRun (bustHand sureShield) (dealerHand sampleRun) 10 True keepOrder
           highs sampleRun) = 1"
  using bust_shield_payout
          [of "bustHand sureShield" highs sampleRun "dealerHand sampleRun" 10 keepOrder sampleRun]
        bust_shield_payout
          [of "bustHand firewallShard" zeros sampleRun "dealerHand sampleRun" 10 keepOrder
              sampleRun]
        bust_shield_payout
          [of "bustHand firewallShard" highs sampleRun "dealerHand sampleRun" 10 keepOrder
              sampleRun]
  by (simp add: bustHand_shields trialSucceeds_def sample_rolls sureShield_def
                firewallShard_def upgradeEntry_def sampleRun_fields(15))

lemma bust_resolution_restores_tokens:
  assumes "draw_card (fst (drawCard (drawPile s) (discardPile s) rnd)) = Some c"
    and "calculateHandScore (playerHand s @ [c]) > 21"
  shows "snd (hit s rnd) =
           Some (ScheduledResolve s (playerHand s @ [c]) (dealerHand s) (currentBet s) True)"
    and "corruptionTokens (fst (hit s rnd)) =
           max 0 (corruptionTokens s + corruptionDelta (processCardEffects s c))"
    and "corruptionTokens
           (fire (ScheduledResolve s (playerHand s @ [c]) (dealerHand s) (currentBet s) True)
              sr rnd' (fst (hit s rnd))) = corruptionTokens s"
    and "credits (fst (hit s rnd)) =
           credits s + creditDelta (processCardEffects s c)
             - (if hasPassive s ''memory_leak'' then 1 else 0)"
    and "phase (fst (hit s rnd)) = round_over"
proof -
  show "snd (hit s rnd) =
           Some (ScheduledResolve s (playerHand s @ [c]) (dealerHand s) (currentBet s) True)"
    using assms by (simp add: hit_def Let_def split_beta)
  show "corruptionTokens (fst (hit s rnd)) =
           max 0 (corruptionTokens s + corruptionDelta (processCardEffects s c))"
    using assms(1) by (rule hit_tokens)
  have "\<not> win (fst (settle s (playerHand s @ [c]) (dealerHand s) (currentBet s) True rnd'))"
    by (simp add: settle_busted)
  then show "corruptionTokens
           (fire (ScheduledResolve s (playerHand s @ [c]) (dealerHand s) (currentBet s) True)
              sr rnd' (fst (hit s rnd))) = corruptionTokens s"
    by (simp add: fire_def resolveRound_progress progression_lost)
  show "credits (fst (hit s rnd)) =
           credits s + creditDelta (processCardEffects s c)
             - (if hasPassive s ''memory_leak'' then 1 else 0)"
    using assms by (simp add: hit_def Let_def split_beta)
  show "phase (fst (hit s rnd)) = round_over"
    using assms by (simp add: hit_def Let_def split_beta)
qed

lemma fanBustRun_fields:
  "drawPile fanBustRun =
     [makeCard clubs R5 ''p'', makeCard diamonds R3 ''p'', makeCard clubs R2 ''p'', fanKing]"
  "discardPile fanBustRun = []"
  "playerHand fanBustRun = [shardTen, makeCard hearts R9 ''p'']"
  "dealerHand fanBustRun = dealerHand sampleRun"
  "corruptionTokens fanBustRun = 1"
  "credits fanBustRun = 90"
  "currentBet fanBustRun = 10"
  "phase fanBustRun = playing"
  by (simp_all add: fanBustRun_def sampleRun_fields)

lemma fanBust_draw:
  "draw_card (fst (drawCard (drawPile fanBustRun) (discardPile fanBustRun) zeros))
     = Some fanKing"
  by (simp add: fanBustRun_fields drawCard_def popCard_def)

lemma fanBust_hand: "playerHand fanBustRun @ [fanKing] = fanBustHand"
  by (simp add: fanBustRun_fields fanBustHand_def)

lemma fanBust_score: "calculateHandScore fanBustHand = 29"
  by (simp add: calculateHandScore_def fanBustHand_def shardTen_def fanKing_def makeCard_def)

lemma fanBust_fan: "corruptionDelta (processCardEffects fanBustRun fanKing) = - 1"
  by (simp add: processCardEffects_def upgradeEffect_def fanKing_def coolingFan_def
                firewallShard_def upgradeEntry_def Let_def)

lemma fanBust_upgrades:
  "handUpgrades fanBustHand = [firewallShard, coolingFan, firewallShard]"
  by (simp add: handUpgrades_def fanBustHand_def shardTen_def fanKing_def makeCard_def)

lemma mixed_trials:
  "fst (shieldTrials [firewallShard, coolingFan, firewallShard] False mixedRolls)"
  "\<not> fst (shieldTrials [firewallShard] False mixedRolls)"
  "fst (shieldTrials [firewallShard] False zeros)"
  by (simp_all add: mixedRolls_def firewallShard_def coolingFan_def upgradeEntry_def
                    rand_high.rep_eq sample_rolls)

lemma fanBust_hooks: "hookCredits fanBustHand 29 = 0"
  by (simp add: hookCredits_def)

lemma fanBust_credit:
  "creditDelta (processCardEffects fanBustRun fanKing) = 0"
  "\<not> hasPassive fanBustRun ''memory_leak''"
  by (simp_all add: processCardEffects_def upgradeEffect_def fanKing_def coolingFan_def
                    firewallShard_def upgradeEntry_def Let_def hasPassive_def fanBustRun_def
                    sampleRun_fields)

text \<open>
  C6, at one run. A busted resolution is not counted as a win and pays half the bet when
  a shield trial succeeds, but it does not leave the corruption tokens as they are: it
  writes back the tokens of the render that scheduled it. On this run, with 1 token, the
  hit draws the king (29, bust), whose Cooling Fan takes the tokens to 0. The resolution
  scheduled by the hit then tries the shield of the 10 on 0.99, which fails, and the
  shield of the king on 0, which succeeds: not a win, payout 5 of the bet of 10, credits
  from 90 to 95. It sets the tokens to 1: one token more on a lost round.
\<close>

theorem C6_bust_resolution_on_sample:
  "corruptionTokens fanBustRun = 1
   \<and> phase fanBustRun = playing
   \<and> snd (hit fanBustRun zeros) =
       Some (ScheduledResolve fanBustRun fanBustHand (dealerHand fanBustRun) 10 True)
   \<and> phase (fst (hit fanBustRun zeros)) = round_over
   \<and> corruptionTokens (fst (hit fanBustRun zeros)) = 0
   \<and> \<not> win (fst (settle fanBustRun fanBustHand (dealerHand fanBustRun) 10 True mixedRolls))
   \<and> payout (fst (settle fanBustRun fanBustHand (dealerHand fanBustRun) 10 True mixedRolls))
       = 5
   \<and> payout (fst (settle fanBustRun [shardTen] (dealerHand fanBustRun) 10 True mixedRolls))
       = 0
   \<and> credits
        (fire (ScheduledResolve fanBustRun fanBustHand (dealerHand fanBustRun) 10 True)
           keepOrder mixedRolls (fst (hit fanBustRun zeros))) = 95
   \<and> corruptionTokens
        (fire (ScheduledResolve fanBustRun fanBustHand (dealerHand fanBustRun) 10 True)
           keepOrder mixedRolls (fst (hit fanBustRun zeros))) = 1"
proof -
  have over: "calculateHandScore (playerHand fanBustRun @ [fanKing]) > 21"
    by (simp add: fanBust_hand fanBust_score)
  note bust = bust_resolution_restores_tokens[OF fanBust_draw over]
  have hit_credits: "credits (fst (hit fanBustRun zeros)) = 90"
    using bust(4) by (simp add: fanBust_credit fanBustRun_fields(6))
  have hit_phase: "phase (fst (hit fanBustRun zeros)) = round_over"
    by (rule bust(5))
  have timer: "snd (hit fanBustRun zeros) =
       Some (ScheduledResolve fanBustRun fanBustHand (dealerHand fanBustRun) 10 True)"
    using bust(1) by (simp add: fanBust_hand fanBustRun_fields(7))
  have after_hit: "corruptionTokens (fst (hit fanBustRun zeros)) = 0"
    using bust(2) by (simp add: fanBust_fan fanBustRun_fields(5))
  have lost: "\<not> win (fst (settle fanBustRun fanBustHand (dealerHand fanBustRun) 10 True
                            mixedRolls))"
    by (simp add: settle_busted)
  have pay: "payout (fst (settle fanBustRun fanBustHand (dealerHand fanBustRun) 10 True
                            mixedRolls)) = 5"
    by (simp add: settle_busted fanBust_upgrades mixed_trials del: shieldTrials.simps)
  have first_only: "payout (fst (settle fanBustRun [shardTen] (dealerHand fanBustRun) 10 True
                                   mixedRolls)) = 0"
    by (simp add: settle_busted handUpgrades_def shardTen_def mixed_trials
             del: shieldTrials.simps)
  have paid: "credits
        (fire (ScheduledResolve fanBustRun fanBustHand (dealerHand fanBustRun) 10 True)
           keepOrder mixedRolls (fst (hit fanBustRun zeros))) = 95"
    by (simp add: fire_def resolveRound_progress pay fanBust_score fanBust_hooks
                  hit_credits)
  have tokens: "corruptionTokens
        (fire (ScheduledResolve fanBustRun fanBustHand (dealerHand fanBustRun) 10 True)
           keepOrder mixedRolls (fst (hit fanBustRun zeros))) = 1"
    using bust(3)[of keepOrder mixedRolls]
    by (simp add: fanBust_hand fanBustRun_fields(5,7))
  show ?thesis
    using timer after_hit lost pay first_only paid tokens
    by (simp add: fanBustRun_fields(5,8) hit_phase)
qed

section \<open>Corruption and the house level\<close>

lemma playRound_won:
  assumes "roundWon r s"
  shows "corruptionTokens s + 1 < corruptionThreshold s \<Longrightarrow>
           corruptionTokens (playRound r s) = corruptionTokens s + 1
           \<and> houseLevel (playRound r s) = houseLevel s
           \<and> corruptionThreshold (playRound r s) = corruptionThreshold s"
    and "corruptionThreshold s \<le> corruptionTokens s + 1 \<Longrightarrow>
           corruptionTokens (playRound r s) = 0
           \<and> houseLevel (playRound r s) = houseLevel s + 1
           \<and> corruptionThreshold (playRound r s) = corruptionThreshold s + 2"
  using assms
  by (simp_all add: playRound_def roundWon_def resolveRound_progress progression_won)

lemma playRounds_snoc: "playRounds (rs @ [r]) s = playRound r (playRounds rs s)"
  by (induction rs arbitrary: s) simp_all

lemma allWon_snoc: "allWon (rs @ [r]) s \<longleftrightarrow> allWon rs s \<and> roundWon r (playRounds rs s)"
  by (induction rs arbitrary: s) simp_all

lemma wins_below_threshold:
  "allWon rs s \<Longrightarrow> corruptionTokens s + of_nat (length rs) < corruptionThreshold s \<Longrightarrow>
   corruptionTokens (playRounds rs s) = corruptionTokens s + of_nat (length rs)
   \<and> houseLevel (playRounds rs s) = houseLevel s
   \<and> corruptionThreshold (playRounds rs s) = corruptionThreshold s"
proof (induction rs arbitrary: s)
  case Nil
  then show ?case by simp
next
  case (Cons r rs)
  from Cons.prems have won: "roundWon r s" and rest: "allWon rs (playRound r s)" by simp_all
  have below: "corruptionTokens s + 1 < corruptionThreshold s"
    using Cons.prems(2) by simp
  note step = playRound_won(1)[OF won below]
  have "corruptionTokens (playRound r s) + of_nat (length rs) < corruptionThreshold (playRound r s)"
    using step Cons.prems(2) by simp
  from Cons.IH[OF rest this] step show ?case by (simp add: algebra_simps)
qed

lemma eight_wins:
  assumes "houseLevel s = 1" "corruptionThreshold s = 8" "corruptionTokens s = 0"
    and "length rounds = 8" "allWon rounds s"
  shows "houseLevel (playRounds rounds s) = 2
         \<and> corruptionTokens (playRounds rounds s) = 0
         \<and> corruptionThreshold (playRounds rounds s) = 10"
proof -
  from assms(4) have ne: "rounds \<noteq> []" by auto
  define rs where "rs = butlast rounds"
  define r where "r = last rounds"
  have split: "rounds = rs @ [r]" using ne by (simp add: rs_def r_def)
  have len: "length rs = 7" using assms(4) by (simp add: rs_def)
  have won: "allWon rs s" "roundWon r (playRounds rs s)"
    using assms(5) by (simp_all add: split allWon_snoc)
  have seven: "corruptionTokens (playRounds rs s) = 7
     \<and> houseLevel (playRounds rs s) = 1 \<and> corruptionThreshold (playRounds rs s) = 8"
    using wins_below_threshold[OF won(1)] assms(1,2,3) len by simp
  then have "corruptionThreshold (playRounds rs s) \<le> corruptionTokens (playRounds rs s) + 1"
    by simp
  from playRound_won(2)[OF won(2) this] seven show ?thesis
    by (simp add: split playRounds_snoc)
qed

lemma threshold_kept:
  "corruptionThreshold (placeBet s b tag rnd) = corruptionThreshold s"
  "corruptionThreshold (fst (hit s rnd)) = corruptionThreshold s"
  "corruptionThreshold (stand s) = corruptionThreshold s"
  "corruptionThreshold (fst (doubleDown s rnd)) = corruptionThreshold s"
  "corruptionThreshold (useConsumable s i) = corruptionThreshold s"
  "corruptionThreshold (selectNewUpgrade s uid) = corruptionThreshold s"
  "corruptionThreshold (nextHand s) = corruptionThreshold s"
  "corruptionThreshold (goToForge s) = corruptionThreshold s"
  "corruptionThreshold (leaveForge s) = corruptionThreshold s"
  "corruptionThreshold (buyUpgrade s g sel u) = corruptionThreshold s"
  "corruptionThreshold (buyConsumable s g item) = corruptionThreshold s"
  "corruptionThreshold (buyPassive s g p) = corruptionThreshold s"
  "corruptionThreshold (purgeCard s sel) = corruptionThreshold s"
  by (simp_all add: placeBet_def hit_def stand_def doubleDown_def doubleDraw_def doubleBet_def
        useConsumable_def selectNewUpgrade_def nextHand_def goToForge_def leaveForge_def
        buyUpgrade_def buyConsumable_def buyPassive_def purgeCard_def Let_def split_beta
        split: option.splits)

lemma winningRound_won: "roundWon winningRound s"
  by (simp add: roundWon_def winningRound_def settle_def adjudicate_def applyMultiplier_def
        calculateHandScore_def makeCard_def Let_def split_beta)

lemma allWon_replicate: "allWon (replicate n winningRound) s"
  by (induction n arbitrary: s) (simp_all add: winningRound_won)

lemma startRun_progress:
  "houseLevel (startRun g tag rnd) = 1"
  "corruptionTokens (startRun g tag rnd) = 0"
  "corruptionThreshold (startRun g tag rnd) =
     8 + (if hasHack g ''threat_dampener'' then 2 else 0)"
  "playerHand (startRun g tag rnd) = []"
  "phase (startRun g tag rnd) = betting"
  by (simp_all add: startRun_def CORRUPTION_THRESHOLD_BASE_def Let_def split_beta)

lemma freshRun_fields:
  "houseLevel freshRun = 1"
  "corruptionThreshold freshRun = 8"
  "corruptionTokens freshRun = 0"
  by (simp_all add: freshRun_def bettingRun_fields)

text \<open>
  C7. A resolution that is a win counts one more corruption token than the run it was
  called from had; when that count reaches the threshold, the house level goes up by 1,
  the tokens are reset to 0 and the threshold goes up by 2. No resolution lowers the
  threshold and no other action changes it. From house level 1, threshold 8 and no tokens,
  eight resolutions in a row that are wins lead to house level 2, no tokens and
  threshold 10.
\<close>

theorem C7_corruption_progress:
  "(win (fst (settle st pH dH bet busted rnd)) \<longrightarrow>
      (corruptionTokens st + 1 < corruptionThreshold st \<longrightarrow>
         corruptionTokens (resolveRound st pH dH bet busted sr rnd prev)
           = corruptionTokens st + 1
         \<and> houseLevel (resolveRound st pH dH bet busted sr rnd prev) = houseLevel st
         \<and> corruptionThreshold (resolveRound st pH dH bet busted sr rnd prev)
             = corruptionThreshold st)
      \<and> (corruptionThreshold st \<le> corruptionTokens st + 1 \<longrightarrow>
           houseLevel (resolveRound st pH dH bet busted sr rnd prev) = houseLevel st + 1
           \<and> corruptionTokens (resolveRound st pH dH bet busted sr rnd prev) = 0
           \<and> corruptionThreshold (resolveRound st pH dH bet busted sr rnd prev)
               = corruptionThreshold st + 2))
   \<and> corruptionThreshold st
       \<le> corruptionThreshold (resolveRound st pH dH bet busted sr rnd prev)
   \<and> corruptionThreshold (placeBet s b tag rnd) = corruptionThreshold s
   \<and> corruptionThreshold (fst (hit s rnd)) = corruptionThreshold s
   \<and> corruptionThreshold (stand s) = corruptionThreshold s
   \<and> corruptionThreshold (fst (doubleDown s rnd)) = corruptionThreshold s
   \<and> corruptionThreshold (useConsumable s i) = corruptionThreshold s
   \<and> corruptionThreshold (selectNewUpgrade s uid) = corruptionThreshold s
   \<and> corruptionThreshold (nextHand s) = corruptionThreshold s
   \<and> corruptionThreshold (goToForge s) = corruptionThreshold s
   \<and> corruptionThreshold (leaveForge s) = corruptionThreshold s
   \<and> corruptionThreshold (buyUpgrade s g sel u) = corruptionThreshold s
   \<and> corruptionThreshold (buyConsumable s g item) = corruptionThreshold s
   \<and> corruptionThreshold (buyPassive s g p) = corruptionThreshold s
   \<and> corruptionThreshold (purgeCard s sel) = corruptionThreshold s
   \<and> (houseLevel s = 1 \<and> corruptionThreshold s = 8 \<and> corruptionTokens s = 0
        \<and> length rounds = 8 \<and> allWon rounds s \<longrightarrow>
        houseLevel (playRounds rounds s) = 2
        \<and> corruptionTokens (playRounds rounds s) = 0
        \<and> corruptionThreshold (playRounds rounds s) = 10)"
proof -
  have one: "win (fst (settle st pH dH bet busted rnd)) \<longrightarrow>
      (corruptionTokens st + 1 < corruptionThreshold st \<longrightarrow>
         corruptionTokens (resolveRound st pH dH bet busted sr rnd prev)
           = corruptionTokens st + 1
         \<and> houseLevel (resolveRound st pH dH bet busted sr rnd prev) = houseLevel st
         \<and> corruptionThreshold (resolveRound st pH dH bet busted sr rnd prev)
             = corruptionThreshold st)
      \<and> (corruptionThreshold st \<le> corruptionTokens st + 1 \<longrightarrow>
           houseLevel (resolveRound st pH dH bet busted sr rnd prev) = houseLevel st + 1
           \<and> corruptionTokens (resolveRound st pH dH bet busted sr rnd prev) = 0
           \<and> corruptionThreshold (resolveRound st pH dH bet busted sr rnd prev)
               = corruptionThreshold st + 2)"
    by (simp add: resolveRound_progress progression_won)
  have mono: "corruptionThreshold st
       \<le> corruptionThreshold (resolveRound st pH dH bet busted sr rnd prev)"
    by (simp add: resolveRound_progress progression_threshold_mono)
  have eight: "houseLevel s = 1 \<and> corruptionThreshold s = 8 \<and> corruptionTokens s = 0
        \<and> length rounds = 8 \<and> allWon rounds s \<longrightarrow>
        houseLevel (playRounds rounds s) = 2
        \<and> corruptionTokens (playRounds rounds s) = 0
        \<and> corruptionThreshold (playRounds rounds s) = 10"
    using eight_wins[of s rounds] by blast
  show ?thesis
    using one mono eight threshold_kept(1)[of s b tag rnd] threshold_kept(2)[of s rnd]
          threshold_kept(3)[of s] threshold_kept(4)[of s rnd] threshold_kept(5)[of s i]
          threshold_kept(6)[of s uid] threshold_kept(7)[of s] threshold_kept(8)[of s]
          threshold_kept(9)[of s] threshold_kept(10)[of s g sel u]
          threshold_kept(11)[of s g item] threshold_kept(12)[of s g p]
          threshold_kept(13)[of s sel]
    by blast
qed

theorem C7_corruption_progress_witness:
  "win (fst (settle freshRun (round_pHand winningRound) (round_dHand winningRound) 10 False
               zeros))
   \<and> corruptionTokens freshRun + 1 < corruptionThreshold freshRun
   \<and> corruptionTokens
        (resolveRound freshRun (round_pHand winningRound) (round_dHand winningRound) 10 False
           keepOrder zeros freshRun) = 1
   \<and> houseLevel freshRun = 1 \<and> corruptionThreshold freshRun = 8
   \<and> corruptionTokens freshRun = 0
   \<and> length (replicate 8 winningRound) = 8
   \<and> allWon (replicate 8 winningRound) freshRun
   \<and> houseLevel (playRounds (replicate 8 winningRound) freshRun) = 2
   \<and> corruptionTokens (playRounds (replicate 8 winningRound) freshRun) = 0
   \<and> corruptionThreshold (playRounds (replicate 8 winningRound) freshRun) = 10"
proof -
  have w: "win (fst (settle freshRun (round_pHand winningRound) (round_dHand winningRound)
                       10 False zeros))"
    using winningRound_won[of freshRun] by (simp add: roundWon_def winningRound_def)
  show ?thesis
    using C7_corruption_progress
            [of freshRun "round_pHand winningRound" "round_dHand winningRound" 10 False zeros
                keepOrder freshRun freshRun 10 dealerTag 0 "''x''" noHacks None luckyCharm
                "consumableEntry ''coolant'' ''System Coolant'' 25 reduce_threat"
                "passiveEntry ''auto_miner'' ''Auto-Miner'' boon (Some 100)"
                "replicate 8 winningRound"]
          w allWon_replicate[of 8 freshRun]
    by (simp add: freshRun_fields)
qed

section \<open>The master deck and the piles\<close>

lemma randomIndex_less: "0 < n \<Longrightarrow> randomIndex r n < n"
proof -
  assume n: "0 < n"
  have "Rep_rand r * of_nat n < of_nat n"
    using Rep_rand_range(2)[of r] n by simp
  then have "\<lfloor>Rep_rand r * of_nat n\<rfloor> < int n"
    by (simp add: floor_less_iff)
  moreover have "0 \<le> \<lfloor>Rep_rand r * of_nat n\<rfloor>"
    using Rep_rand_range(1)[of r] by simp
  ultimately show ?thesis by (simp add: randomIndex_def nat_less_iff)
qed

lemma shuffleLoop_mset:
  "i < length xs \<Longrightarrow> mset (fst (shuffleLoop i xs rnd)) = mset xs"
proof (induction i arbitrary: xs rnd)
  case 0
  then show ?case by simp
next
  case (Suc i)
  let ?j = "randomIndex (shd rnd) (Suc i + 1)"
  have j: "?j < length xs"
    using randomIndex_less[of "Suc i + 1" "shd rnd"] Suc.prems by simp
  have swap: "mset (xs[Suc i := xs ! ?j, ?j := xs ! Suc i]) = mset xs"
    using Suc.prems j by (simp add: mset_swap)
  have "i < length (xs[Suc i := xs ! ?j, ?j := xs ! Suc i])"
    using Suc.prems by simp
  from Suc.IH[OF this] swap show ?case by (simp add: Let_def)
qed

lemma shuffleDeck_mset: "mset (fst (shuffleDeck deck rnd)) = mset deck"
proof (cases deck)
  case Nil
  then show ?thesis by (simp add: shuffleDeck_def)
next
  case (Cons x xs)
  then have "length deck - 1 < length deck" by simp
  then show ?thesis unfolding shuffleDeck_def by (rule shuffleLoop_mset)
qed

lemma cardIds_simps:
  "cardIds [] = {#}"
  "cardIds (xs @ ys) = cardIds xs + cardIds ys"
  "cardIds [c] = {#card_id c#}"
  by (simp_all add: cardIds_def)

lemma cardIds_mset: "mset xs = mset ys \<Longrightarrow> cardIds xs = cardIds ys"
  unfolding cardIds_def by (metis mset_map)

lemma popCard_ids:
  "cardIds (newDraw (popCard pile d)) + cardIds (newDiscard (popCard pile d))
     + cardIds (pushDrawn [] (draw_card (popCard pile d)))
   = cardIds pile + cardIds d"
proof (cases "pile = []")
  case True
  then show ?thesis by (simp add: popCard_def pushDrawn_def cardIds_simps)
next
  case False
  then have "pile = butlast pile @ [last pile]" by simp
  then have "cardIds pile = cardIds (butlast pile) + cardIds [last pile]"
    by (metis cardIds_simps(2))
  then show ?thesis using False by (simp add: popCard_def pushDrawn_def cardIds_simps)
qed

lemma drawCard_ids:
  "cardIds (newDraw (fst (drawCard pile d rnd))) + cardIds (newDiscard (fst (drawCard pile d rnd)))
     + cardIds (pushDrawn [] (draw_card (fst (drawCard pile d rnd))))
   = cardIds pile + cardIds d"
proof (cases "pile = []")
  case True
  have "cardIds (fst (shuffleDeck d rnd)) = cardIds d"
    by (rule cardIds_mset) (rule shuffleDeck_mset)
  then show ?thesis
    using True popCard_ids[of "fst (shuffleDeck d rnd)" "[]"]
    by (simp add: drawCard_def split_beta cardIds_simps)
next
  case False
  then show ?thesis using popCard_ids[of pile d] by (simp add: drawCard_def)
qed

lemma pushDrawn_ids: "cardIds (pushDrawn hand c) = cardIds hand + cardIds (pushDrawn [] c)"
  by (cases c) (simp_all add: pushDrawn_def cardIds_simps)

lemma placeBet_invariant:
  assumes "deckInvariant s" and "playerHand s = []"
  shows "deckInvariant (placeBet s b tag rnd)"
proof (cases "credits s < b")
  case True
  then show ?thesis using assms(1) by (simp add: placeBet_insufficient deckInvariant_def)
next
  case False
  define p1 where "p1 = fst (drawCard (drawPile s) (discardPile s) rnd)"
  define r2 where "r2 = snd (freshShuffledDeck tag (snd (drawCard (drawPile s) (discardPile s) rnd)))"
  define p2 where "p2 = fst (drawCard (newDraw p1) (newDiscard p1) r2)"
  have f: "playerDeck (placeBet s b tag rnd) = playerDeck s"
    "drawPile (placeBet s b tag rnd) = newDraw p2"
    "discardPile (placeBet s b tag rnd) = newDiscard p2"
    "playerHand (placeBet s b tag rnd) = pushDrawn (pushDrawn [] (draw_card p1)) (draw_card p2)"
    using False by (simp_all add: placeBet_def Let_def split_beta p1_def p2_def r2_def)
  have "cardIds (newDraw p2) + cardIds (newDiscard p2) + cardIds (pushDrawn [] (draw_card p2))
          = cardIds (newDraw p1) + cardIds (newDiscard p1)"
    unfolding p2_def by (rule drawCard_ids)
  moreover have "cardIds (newDraw p1) + cardIds (newDiscard p1)
       + cardIds (pushDrawn [] (draw_card p1)) = cardIds (drawPile s) + cardIds (discardPile s)"
    unfolding p1_def by (rule drawCard_ids)
  ultimately have "cardIds (newDraw p2) + cardIds (newDiscard p2)
       + cardIds (pushDrawn (pushDrawn [] (draw_card p1)) (draw_card p2))
       = cardIds (drawPile s) + cardIds (discardPile s)"
    by (simp add: pushDrawn_ids[of "pushDrawn [] (draw_card p1)"] ac_simps)
  then show ?thesis using assms by (simp add: deckInvariant_def f cardIds_simps)
qed

lemma drawn_Some_ids:
  "draw_card (fst (drawCard pile d rnd)) = Some c \<Longrightarrow>
   cardIds (newDraw (fst (drawCard pile d rnd))) + cardIds (newDiscard (fst (drawCard pile d rnd)))
     + {#card_id c#} = cardIds pile + cardIds d"
  using drawCard_ids[of pile d rnd] by (simp add: pushDrawn_def cardIds_simps)

lemma hit_invariant:
  assumes "deckInvariant s"
  shows "deckInvariant (fst (hit s rnd))"
proof (cases "draw_card (fst (drawCard (drawPile s) (discardPile s) rnd))")
  case None
  then show ?thesis using assms by (simp add: hit_no_card)
next
  case (Some c)
  have f: "playerDeck (fst (hit s rnd)) = playerDeck s"
    "drawPile (fst (hit s rnd)) = newDraw (fst (drawCard (drawPile s) (discardPile s) rnd))"
    "discardPile (fst (hit s rnd)) = newDiscard (fst (drawCard (drawPile s) (discardPile s) rnd))"
    "playerHand (fst (hit s rnd)) = playerHand s @ [c]"
    using Some by (simp_all add: hit_def Let_def split_beta)
  show ?thesis
    using assms drawn_Some_ids[OF Some]
    by (simp add: deckInvariant_def f cardIds_simps ac_simps)
qed

lemma doubleDown_invariant:
  assumes "deckInvariant s"
  shows "deckInvariant (fst (doubleDown s rnd))"
proof (cases "draw_card (fst (drawCard (drawPile s) (discardPile s) rnd))")
  case None
  then show ?thesis using assms by (simp add: doubleDown_no_card doubleBet_def deckInvariant_def)
next
  case (Some c)
  have f: "playerDeck (fst (doubleDown s rnd)) = playerDeck s"
    "drawPile (fst (doubleDown s rnd)) = newDraw (fst (drawCard (drawPile s) (discardPile s) rnd))"
    "discardPile (fst (doubleDown s rnd)) = newDiscard (fst (drawCard (drawPile s) (discardPile s) rnd))"
    "playerHand (fst (doubleDown s rnd)) = playerHand s @ [c]"
    using Some by (simp_all add: doubleDown_def doubleDraw_def doubleBet_def Let_def split_beta)
  show ?thesis
    using assms drawn_Some_ids[OF Some]
    by (simp add: deckInvariant_def f cardIds_simps ac_simps)
qed

lemma findIndex_less: "findIndex P xs = Some i \<Longrightarrow> i < length xs"
  by (induction xs arbitrary: i) (auto split: if_splits)

lemma moveToEnd_mset: "i < length xs \<Longrightarrow> mset (moveToEnd i xs) = mset xs"
proof -
  assume i: "i < length xs"
  then have "xs = take i xs @ xs ! i # drop (Suc i) xs" by (rule id_take_nth_drop)
  then have "mset xs = mset (take i xs @ xs ! i # drop (Suc i) xs)"
    by simp
  then show ?thesis by (simp add: moveToEnd_def)
qed

lemma moveHighValueCardToTop_mset: "mset (moveHighValueCardToTop deck) = mset deck"
  by (simp add: moveHighValueCardToTop_def moveToEnd_mset findIndex_less split: option.splits)

lemma useConsumable_invariant:
  assumes "deckInvariant s"
  shows "deckInvariant (useConsumable s i)"
proof -
  have "cardIds (moveHighValueCardToTop (drawPile s)) = cardIds (drawPile s)"
    by (rule cardIds_mset) (rule moveHighValueCardToTop_mset)
  then show ?thesis using assms by (simp add: useConsumable_def deckInvariant_def Let_def)
qed

lemma addUpgrade_ids: "map card_id (map (addUpgrade sel u) cs) = map card_id cs"
  by (induction cs) (simp_all add: addUpgrade_def)

lemma addUpgrade_cardIds: "cardIds (map (addUpgrade sel u) cs) = cardIds cs"
  by (simp only: cardIds_def addUpgrade_ids)

lemma buyUpgrade_invariant:
  "deckInvariant s \<Longrightarrow> deckInvariant (buyUpgrade s g sel u)"
  by (simp add: buyUpgrade_def deckInvariant_def addUpgrade_cardIds addUpgrade_ids Let_def
           del: map_map split: option.splits)

lemma shop_invariant:
  "deckInvariant s \<Longrightarrow> deckInvariant (buyConsumable s g item)"
  "deckInvariant s \<Longrightarrow> deckInvariant (buyPassive s g p)"
  "deckInvariant s \<Longrightarrow> deckInvariant (stand s)"
  by (simp_all add: buyConsumable_def buyPassive_def stand_def deckInvariant_def Let_def
           split: option.splits)

lemma cardIds_purge:
  "cardIds (filter (\<lambda>c. card_id c \<noteq> cid) cs) = filter_mset (\<lambda>i. i \<noteq> cid) (cardIds cs)"
  by (induction cs) (simp_all add: cardIds_def)

lemma purgeCard_invariant:
  assumes "deckInvariant s" and "cid \<notin> set (map card_id (playerHand s))"
  shows "deckInvariant (purgeCard s (Some cid))"
proof -
  have hand: "filter_mset (\<lambda>i. i \<noteq> cid) (cardIds (playerHand s)) = cardIds (playerHand s)"
    using assms(2) by (auto simp add: cardIds_def filter_mset_eq_conv)
  have d: "distinct (map card_id (filter (\<lambda>c. card_id c \<noteq> cid) (playerDeck s)))"
    using assms(1) by (simp add: deckInvariant_def distinct_map_filter)
  have "filter_mset (\<lambda>i. i \<noteq> cid) (cardIds (playerDeck s))
          = filter_mset (\<lambda>i. i \<noteq> cid) (cardIds (drawPile s))
            + filter_mset (\<lambda>i. i \<noteq> cid) (cardIds (discardPile s)) + cardIds (playerHand s)"
    using assms(1) hand by (simp add: deckInvariant_def)
  then show ?thesis
    using assms(1) d by (simp add: purgeCard_def deckInvariant_def cardIds_purge Let_def)
qed

lemma resolveRound_piles:
  "playerDeck (resolveRound st pH dH bet busted sr rnd prev) = playerDeck prev"
  "drawPile (resolveRound st pH dH bet busted sr rnd prev) = drawPile prev"
  "playerHand (resolveRound st pH dH bet busted sr rnd prev) = playerHand prev"
  "take (length (discardPile prev) + length pH)
     (discardPile (resolveRound st pH dH bet busted sr rnd prev)) = discardPile prev @ pH"
  by (simp_all add: resolveRound_def Let_def split_beta)

lemma deckInvariant_length:
  "deckInvariant s \<Longrightarrow>
   length (playerDeck s) = length (drawPile s) + length (discardPile s) + length (playerHand s)"
proof -
  assume "deckInvariant s"
  then have "size (cardIds (playerDeck s))
      = size (cardIds (drawPile s) + cardIds (discardPile s) + cardIds (playerHand s))"
    by (simp add: deckInvariant_def)
  then show ?thesis by (simp add: cardIds_def)
qed

lemma resolveRound_discard:
  "discardPile (resolveRound st pH dH bet busted sr rnd prev) = discardPile prev @ pH @ dH"
  by (simp add: resolveRound_def Let_def split_beta)

lemma nextHand_clears: "playerHand (nextHand s) = []" "dealerHand (nextHand s) = []"
  by (simp_all add: nextHand_def)

text \<open>
  Call a run consistent when the master deck holds every card id once and its ids are
  those of the draw pile, the discard pile and the player hand together, each once.
  From a consistent run, \<open>placeBet\<close> (entered with an empty hand), \<open>hit\<close>, \<open>stand\<close>,
  Double Down, \<open>useConsumable\<close>, the three purchases and the purge of a card that is not
  in the hand lead to a consistent run.
\<close>

lemma actions_keep_consistency:
  "deckInvariant s \<longrightarrow>
      (playerHand s = [] \<longrightarrow> deckInvariant (placeBet s b tag rnd))
      \<and> deckInvariant (fst (hit s rnd))
      \<and> deckInvariant (stand s)
      \<and> deckInvariant (fst (doubleDown s rnd))
      \<and> deckInvariant (useConsumable s i)
      \<and> deckInvariant (buyUpgrade s g sel u)
      \<and> deckInvariant (buyConsumable s g item)
      \<and> deckInvariant (buyPassive s g p)
      \<and> (cid \<notin> set (map card_id (playerHand s)) \<longrightarrow>
           deckInvariant (purgeCard s (Some cid)))"
  by (simp add: placeBet_invariant hit_invariant shop_invariant doubleDown_invariant
                useConsumable_invariant buyUpgrade_invariant purgeCard_invariant)

text \<open>
  Round resolution puts the resolved player hand and the dealer hand on the player's
  discard pile. The player hand stays in place until the next hand is started; once it
  is cleared, the run that resolves its own hand is consistent again when the dealer
  hand is empty, and never when the dealer hand holds a card.
\<close>

lemma nextHand_piles:
  "playerDeck (nextHand s) = playerDeck s"
  "drawPile (nextHand s) = drawPile s"
  "discardPile (nextHand s) = discardPile s"
  by (simp_all add: nextHand_def)

lemma without_dealer_cards_consistent:
  assumes "deckInvariant s"
  shows "deckInvariant (nextHand (resolveRound st (playerHand s) [] bet busted sr rnd s))"
  using assms
  by (simp add: deckInvariant_def nextHand_piles nextHand_clears resolveRound_piles(1,2)
                resolveRound_discard cardIds_simps)

lemma dealer_cards_break_consistency:
  assumes "deckInvariant s" and "dH \<noteq> []"
  shows "\<not> deckInvariant (nextHand (resolveRound st (playerHand s) dH bet busted sr rnd s))"
proof
  let ?after = "nextHand (resolveRound st (playerHand s) dH bet busted sr rnd s)"
  assume "deckInvariant ?after"
  then have "length (playerDeck ?after)
      = length (drawPile ?after) + length (discardPile ?after) + length (playerHand ?after)"
    by (rule deckInvariant_length)
  then have "length (playerDeck s)
      = length (drawPile s) + length (discardPile s) + length (playerHand s) + length dH"
    by (simp add: nextHand_piles nextHand_clears resolveRound_piles(1,2) resolveRound_discard)
  with deckInvariant_length[OF assms(1)] assms(2) show False by simp
qed

lemma sample_ids:
  "map card_id (playerDeck sampleRun) =
     [''10-spades-p'', ''9-hearts-p'', ''5-clubs-p'', ''K-diamonds-p'', ''3-diamonds-p'',
      ''2-clubs-p'']"
  "map card_id (drawPile sampleRun) =
     [''5-clubs-p'', ''K-diamonds-p'', ''3-diamonds-p'', ''2-clubs-p'']"
  "map card_id (playerHand sampleRun) = [''10-spades-p'', ''9-hearts-p'']"
  "map card_id (dealerHand sampleRun) = [''10-hearts-d'', ''9-clubs-d'']"
  "discardPile sampleRun = []"
  by (simp_all add: sampleRun_fields sample_cards)

lemma sample_distinct:
  "distinct [''10-spades-p'', ''9-hearts-p'', ''5-clubs-p'', ''K-diamonds-p'',
             ''3-diamonds-p'', ''2-clubs-p'']"
  by simp

lemma sampleRun_invariant: "deckInvariant sampleRun"
  unfolding deckInvariant_def cardIds_def sample_ids
  by (simp add: sample_distinct)

lemma bettingRun_invariant: "deckInvariant bettingRun"
  unfolding deckInvariant_def cardIds_def bettingRun_fields sample_ids
  by (simp add: sample_distinct)

lemma actions_keep_consistency_sample:
  "deckInvariant bettingRun
   \<and> playerHand bettingRun = []
   \<and> deckInvariant (placeBet bettingRun 10 dealerTag zeros)
   \<and> deckInvariant sampleRun
   \<and> deckInvariant (fst (hit sampleRun zeros))
   \<and> deckInvariant (fst (doubleDown sampleRun zeros))
   \<and> ''2-clubs-p'' \<notin> set (map card_id (playerHand sampleRun))
   \<and> deckInvariant (purgeCard sampleRun (Some ''2-clubs-p''))"
  using actions_keep_consistency
          [of bettingRun 10 dealerTag zeros 0 noHacks None luckyCharm
              "consumableEntry ''coolant'' ''System Coolant'' 25 reduce_threat"
              "passiveEntry ''auto_miner'' ''Auto-Miner'' boon (Some 100)" "''2-clubs-p''"]
        actions_keep_consistency
          [of sampleRun 10 dealerTag zeros 0 noHacks None luckyCharm
              "consumableEntry ''coolant'' ''System Coolant'' 25 reduce_threat"
              "passiveEntry ''auto_miner'' ''Auto-Miner'' boon (Some 100)" "''2-clubs-p''"]
        bettingRun_invariant sampleRun_invariant
  by (simp add: bettingRun_fields(10) sample_ids(3))

lemma standing_fields:
  "phase (stand sampleRun) = dealer_turn"
  "playerHand (stand sampleRun) = playerHand sampleRun"
  "dealerHand (stand sampleRun) = dealerHand sampleRun"
  "houseLevel (stand sampleRun) = 1"
  "playerDeck (stand sampleRun) = playerDeck sampleRun"
  "drawPile (stand sampleRun) = drawPile sampleRun"
  "discardPile (stand sampleRun) = []"
  by (simp_all add: stand_def sampleRun_fields)

lemma after_resolution:
  "dealerTurn (stand sampleRun) dealerTag keepOrder zeros =
     resolveRound (stand sampleRun) (playerHand sampleRun) (dealerHand sampleRun)
       (currentBet (stand sampleRun)) False keepOrder zeros (stand sampleRun)"
  by (simp add: dealerTurn_def standing_fields sampleRun_scores Let_def)

lemma after_resolution_piles:
  "map card_id (playerDeck (dealerTurn (stand sampleRun) dealerTag keepOrder zeros)) =
     [''10-spades-p'', ''9-hearts-p'', ''5-clubs-p'', ''K-diamonds-p'', ''3-diamonds-p'',
      ''2-clubs-p'']"
  "map card_id (drawPile (dealerTurn (stand sampleRun) dealerTag keepOrder zeros)) =
     [''5-clubs-p'', ''K-diamonds-p'', ''3-diamonds-p'', ''2-clubs-p'']"
  "map card_id (playerHand (dealerTurn (stand sampleRun) dealerTag keepOrder zeros)) =
     [''10-spades-p'', ''9-hearts-p'']"
  "map card_id (discardPile (dealerTurn (stand sampleRun) dealerTag keepOrder zeros)) =
     [''10-spades-p'', ''9-hearts-p'', ''10-hearts-d'', ''9-clubs-d'']"
  unfolding after_resolution resolveRound_piles resolveRound_discard standing_fields
  by (simp_all add: sample_ids)

text \<open>
  C1, at one run. The dealer's cards, drawn from the dealer's own fresh deck, enter the
  player's discard pile at round resolution. On the sample run, which is consistent, the
  player stands on 19 against the dealer's 19, the round is resolved and the next hand
  is started. The hand is then empty and the discard pile holds the two cards of the
  hand and the dealer's two cards, which are not in the master deck: the run is not
  consistent, with ten cards in the piles for a master deck of six.
\<close>

theorem C1_dealer_cards_enter_discard:
  "deckInvariant (stand sampleRun)
   \<and> map card_id (dealerHand (stand sampleRun)) = [''10-hearts-d'', ''9-clubs-d'']
   \<and> map card_id (playerDeck (nextHand (dealerTurn (stand sampleRun) dealerTag keepOrder zeros)))
       = [''10-spades-p'', ''9-hearts-p'', ''5-clubs-p'', ''K-diamonds-p'', ''3-diamonds-p'',
          ''2-clubs-p'']
   \<and> map card_id (drawPile (nextHand (dealerTurn (stand sampleRun) dealerTag keepOrder zeros)))
       = [''5-clubs-p'', ''K-diamonds-p'', ''3-diamonds-p'', ''2-clubs-p'']
   \<and> map card_id
        (discardPile (nextHand (dealerTurn (stand sampleRun) dealerTag keepOrder zeros)))
       = [''10-spades-p'', ''9-hearts-p'', ''10-hearts-d'', ''9-clubs-d'']
   \<and> playerHand (nextHand (dealerTurn (stand sampleRun) dealerTag keepOrder zeros)) = []
   \<and> phase (nextHand (dealerTurn (stand sampleRun) dealerTag keepOrder zeros)) = betting
   \<and> \<not> deckInvariant (nextHand (dealerTurn (stand sampleRun) dealerTag keepOrder zeros))"
proof -
  let ?resolved = "dealerTurn (stand sampleRun) dealerTag keepOrder zeros"
  have before: "deckInvariant (stand sampleRun)"
    using sampleRun_invariant by (rule shop_invariant(3))
  have dealer: "map card_id (dealerHand (stand sampleRun)) = [''10-hearts-d'', ''9-clubs-d'']"
    by (simp add: standing_fields sample_ids)
  have "dealerHand sampleRun \<noteq> []"
    by (simp add: sampleRun_fields)
  from dealer_cards_break_consistency[OF before this]
  have broken: "\<not> deckInvariant (nextHand ?resolved)"
    by (simp add: after_resolution standing_fields)
  have "phase (nextHand ?resolved) = betting"
    by (simp add: nextHand_def)
  with before dealer broken show ?thesis
    by (simp add: nextHand_piles nextHand_clears after_resolution_piles)
qed

end
